theory Spec2Isabelle
  imports Main "HOL-Library.Char_ord" "HOL-Library.List_Lexorder"
begin

section \<open>JavaScript values, errors and the query cache\<close>

text \<open>
  The pages are TypeScript/React components. A field typed \<^verbatim>\<open>string | null\<close> is a
  \<open>string option\<close>; an optional field typed \<^verbatim>\<open>f?: string | null\<close> can also be
  absent, which is \<open>Undefined\<close>. The conditions \<^verbatim>\<open>x && ...\<close> and \<^verbatim>\<open>x ? a : b\<close>
  test JavaScript truthiness: \<^verbatim>\<open>undefined\<close>, \<^verbatim>\<open>null\<close> and the empty string are
  falsy, every other string is truthy.
\<close>

datatype jsval = Undefined | Null | Str string

fun truthy :: "jsval \<Rightarrow> bool" where
  "truthy Undefined = False"
| "truthy Null = False"
| "truthy (Str s) = (s \<noteq> [])"

text \<open>
  Two kinds of error reach the pages: a JavaScript \<^verbatim>\<open>new Error(msg)\<close> thrown by the page
  itself, and the error object of a row-store response.
\<close>

datatype error = Error string | StoreError string

text \<open>Every row-store call answers with \<^verbatim>\<open>{data, error}\<close>; both can be \<^verbatim>\<open>null\<close>.\<close>

record 'a response =
  data :: "'a option"
  error :: "error option"

text \<open>
  The query cache (\<^verbatim>\<open>useQuery\<close>) runs a query function and keeps one of three states.
  A query function that throws leaves the query in the failed state: the error does not
  propagate to the component. A failed query keeps the data of an earlier success, if
  there was one. The component reads \<^verbatim>\<open>{data, isLoading}\<close>; \<^verbatim>\<open>data\<close> is
  \<^verbatim>\<open>undefined\<close> (\<open>None\<close>) until a fetch has succeeded.
\<close>

datatype 'a query = Pending | Success 'a | Failed error "'a option"

fun isLoading :: "'a query \<Rightarrow> bool" where
  "isLoading Pending = True"
| "isLoading (Success d) = False"
| "isLoading (Failed e old) = False"

fun query_data :: "'a query \<Rightarrow> 'a option" where
  "query_data Pending = None"
| "query_data (Success d) = Some d"
| "query_data (Failed e old) = old"

text \<open>The first fetch of a query, and a refetch after an invalidation.\<close>

fun useQuery_settle :: "error + 'a \<Rightarrow> 'a query" where
  "useQuery_settle (Inl e) = Failed e None"
| "useQuery_settle (Inr d) = Success d"

fun refetch_settle :: "'a query \<Rightarrow> error + 'a \<Rightarrow> 'a query" where
  "refetch_settle q (Inl e) = Failed e (query_data q)"
| "refetch_settle q (Inr d) = Success d"

section \<open>Data model\<close>

subsection \<open>Profile\<close>

text \<open>
  The \<^verbatim>\<open>Profile\<close> interface of Profile.tsx. A profile object, like a
  \<^verbatim>\<open>Partial<Profile>\<close> update payload, is a JavaScript object: a map from field names
  to values, where \<open>Undefined\<close> stands for a key that is absent (a key whose value is
  \<^verbatim>\<open>undefined\<close> is dropped when the payload is serialised).
\<close>

datatype field =
  Id_field | Username | Full_name | Avatar_url | Cover_url | Created_at | Updated_at | Theme_preference

type_synonym profile = "field \<Rightarrow> jsval"

definition empty_object :: profile where
  "empty_object = (\<lambda>f. Undefined)"

subsection \<open>Place\<close>

text \<open>
  Modelled from the spec: the row type \<^verbatim>\<open>Database["public"]["Tables"]["places"]["Row"]\<close>
  is declared in the generated client types, which are not part of the sources. The
  fields are those of the data model: \<^verbatim>\<open>id\<close> and \<^verbatim>\<open>name\<close> are strings, the others are
  nullable strings, and \<^verbatim>\<open>social_media\<close> is an optional object with the optional
  subfields \<^verbatim>\<open>facebook\<close> and \<^verbatim>\<open>instagram\<close>.
\<close>

record social =
  facebook :: "string option"
  instagram :: "string option"

record place =
  id_place :: string
  name :: string
  description :: "string option"
  address :: "string option"
  owner_name :: "string option"
  opening_hours :: "string option"
  entrance_fee :: "string option"
  phone :: "string option"
  whatsapp :: "string option"
  website :: "string option"
  social_media :: "social option"
  maps_url :: "string option"
  image_place :: "string option"

section \<open>The backend: authentication and the row store\<close>

text \<open>
  The hosted backend is an external collaborator. Its state is the authenticated user
  (if any), the two collections, and whether the row store is failing: when
  \<open>store_failure\<close> is \<open>Some e\<close>, every row-store call answers with the error \<open>e\<close>, no data,
  and no effect.
\<close>

record user =
  user_id :: string

record backend =
  auth_user :: "user option"
  profiles :: "profile list"
  places :: "place list"
  store_failure :: "error option"

text \<open>\<^verbatim>\<open>supabase.auth.getUser()\<close>: the \<^verbatim>\<open>user\<close> of the answer, \<^verbatim>\<open>null\<close> without a session.\<close>

definition auth_getUser :: "backend \<Rightarrow> user option" where
  "auth_getUser b = auth_user b"


section \<open>Places.tsx\<close>

text \<open>
  The query function of the \<^verbatim>\<open>["places"]\<close> query:
  \<^verbatim>\<open>const { data, error } = await ...; if (error) throw error; return data;\<close>
\<close>

definition places_queryFn_of :: "(place list) response \<Rightarrow> error + (place list) option" where
  "places_queryFn_of r = (case error r of Some e \<Rightarrow> Inl e | None \<Rightarrow> Inr (data r))"



text \<open>
  A card of the grid. \<^verbatim>\<open>{v && <el/>}\<close> renders the element when \<open>v\<close> is truthy and
  nothing otherwise; for a nullable string that is: not \<^verbatim>\<open>null\<close> and not empty.
\<close>

fun when_truthy :: "string option \<Rightarrow> (string \<Rightarrow> 'a) \<Rightarrow> 'a list" where
  "when_truthy None el = []"
| "when_truthy (Some s) el = (if truthy (Str s) then [el s] else [])"

datatype detail_kind = MapPin | User2 | Clock | Ticket

datatype contact_kind = Phone | Whatsapp | Website | Facebook | Instagram | Maps

text \<open>A contact affordance is a link: its icon and its \<^verbatim>\<open>href\<close>.\<close>

datatype anchor = Anchor contact_kind string

fun anchor_kind :: "anchor \<Rightarrow> contact_kind" where
  "anchor_kind (Anchor k h) = k"

text \<open>\<^verbatim>\<open>place.whatsapp.replace(/\D/g, '')\<close> keeps the decimal digits.\<close>

definition is_digit :: "char \<Rightarrow> bool" where
  "is_digit c = (CHR ''0'' \<le> c \<and> c \<le> CHR ''9'')"

definition strip_non_digits :: "string \<Rightarrow> string" where
  "strip_non_digits s = filter is_digit s"

record card =
  card_key :: string
  card_img :: "(string \<times> string) list"
  card_title :: string
  card_description :: "string list"
  card_details :: "(detail_kind \<times> string) list"
  card_contacts :: "anchor list"

definition place_contacts :: "place \<Rightarrow> anchor list" where
  "place_contacts p =
     when_truthy (phone p) (\<lambda>v. Anchor Phone (''tel:'' @ v))
   @ when_truthy (whatsapp p) (\<lambda>v. Anchor Whatsapp (''https://wa.me/'' @ strip_non_digits v))
   @ when_truthy (website p) (\<lambda>v. Anchor Website v)
   @ (case social_media p of
        None \<Rightarrow> []
      | Some sm \<Rightarrow>
          when_truthy (facebook sm) (\<lambda>v. Anchor Facebook v)
        @ when_truthy (instagram sm) (\<lambda>v. Anchor Instagram v))
   @ when_truthy (maps_url p) (\<lambda>v. Anchor Maps v)"

definition place_card :: "place \<Rightarrow> card" where
  "place_card p =
     \<lparr>card_key = id_place p,
      card_img = when_truthy (image_place p) (\<lambda>v. (v, name p)),
      card_title = name p,
      card_description = when_truthy (description p) (\<lambda>v. v),
      card_details =
          when_truthy (address p) (\<lambda>v. (MapPin, v))
        @ when_truthy (owner_name p) (\<lambda>v. (User2, v))
        @ when_truthy (opening_hours p) (\<lambda>v. (Clock, v))
        @ when_truthy (entrance_fee p) (\<lambda>v. (Ticket, v)),
      card_contacts = place_contacts p\<rparr>"

text \<open>
  The body of the page: the spinner while \<^verbatim>\<open>isLoading\<close>, otherwise the grid
  \<^verbatim>\<open>places?.map(...)\<close>, which is empty when \<^verbatim>\<open>places\<close> is \<^verbatim>\<open>undefined\<close> or \<^verbatim>\<open>null\<close>.
\<close>

datatype places_body = Spinner | Grid "card list"

definition Places :: "((place list) option) query \<Rightarrow> places_body" where
  "Places q =
     (if isLoading q then Spinner
      else Grid (case query_data q of
                   Some (Some ps) \<Rightarrow> map place_card ps
                 | _ \<Rightarrow> []))"


subsection \<open>Notions used in the properties\<close>

text \<open>A card shows the affordance of a kind when one of its links has that kind.\<close>

definition card_shows :: "contact_kind \<Rightarrow> card \<Rightarrow> bool" where
  "card_shows k c = (k \<in> set (map anchor_kind (card_contacts c)))"

text \<open>
  A nullable field is non-empty when it is present and not the empty string; for the
  two social links the \<^verbatim>\<open>social_media\<close> object has to be present as well.
\<close>

fun nonempty :: "string option \<Rightarrow> bool" where
  "nonempty None = False"
| "nonempty (Some s) = (0 < length s)"

fun contact_field_nonempty :: "contact_kind \<Rightarrow> place \<Rightarrow> bool" where
  "contact_field_nonempty Phone p = nonempty (phone p)"
| "contact_field_nonempty Whatsapp p = nonempty (whatsapp p)"
| "contact_field_nonempty Website p = nonempty (website p)"
| "contact_field_nonempty Facebook p =
     (case social_media p of None \<Rightarrow> False | Some sm \<Rightarrow> nonempty (facebook sm))"
| "contact_field_nonempty Instagram p =
     (case social_media p of None \<Rightarrow> False | Some sm \<Rightarrow> nonempty (instagram sm))"
| "contact_field_nonempty Maps p = nonempty (maps_url p)"

fun grid_cards :: "places_body \<Rightarrow> card list" where
  "grid_cards Spinner = []"
| "grid_cards (Grid cs) = cs"

section \<open>Profile.tsx\<close>

subsection \<open>The row store, collection \<^verbatim>\<open>profiles\<close>\<close>

text \<open>
  \<^verbatim>\<open>supabase.from("profiles").select("*").eq("id", uid).single()\<close>: the row whose
  \<^verbatim>\<open>id\<close> is \<open>uid\<close> when there is exactly one; otherwise no data and an error.
\<close>

definition from_profiles_select_eq_id_single :: "backend \<Rightarrow> string \<Rightarrow> profile response" where
  "from_profiles_select_eq_id_single b uid =
     (case store_failure b of
        Some e \<Rightarrow> \<lparr>data = None, error = Some e\<rparr>
      | None \<Rightarrow>
          (case filter (\<lambda>r. r Id_field = Str uid) (profiles b) of
             [r] \<Rightarrow> \<lparr>data = Some r, error = None\<rparr>
           | _ \<Rightarrow> \<lparr>data = None, error = Some (StoreError ''PGRST116'')\<rparr>))"

text \<open>
  \<^verbatim>\<open>supabase.from("profiles").update(values).eq("id", uid)\<close>: every key present in
  \<open>values\<close> overwrites that column of the rows whose \<^verbatim>\<open>id\<close> is \<open>uid\<close>; the answer
  carries the error only.
\<close>

definition apply_update :: "profile \<Rightarrow> profile \<Rightarrow> profile" where
  "apply_update values row = (\<lambda>f. case values f of Undefined \<Rightarrow> row f | v \<Rightarrow> v)"

definition from_profiles_update_eq_id ::
  "backend \<Rightarrow> profile \<Rightarrow> string \<Rightarrow> error option \<times> backend" where
  "from_profiles_update_eq_id b values uid =
     (case store_failure b of
        Some e \<Rightarrow> (Some e, b)
      | None \<Rightarrow>
          (None, b\<lparr>profiles :=
                     map (\<lambda>r. if r Id_field = Str uid then apply_update values r else r)
                       (profiles b)\<rparr>))"

subsection \<open>State of the page\<close>

record toast =
  title :: string
  description :: string

text \<open>
  The three \<^verbatim>\<open>useState\<close> flags, the values held by the form (\<^verbatim>\<open>useForm\<close>), the
  \<^verbatim>\<open>["profile"]\<close> query, the query keys invalidated and not yet refetched, the
  notifications emitted so far, the payloads of the mutations started by \<^verbatim>\<open>mutate\<close> and not
  yet resolved, and the outcome of the last mutation that resolved.
\<close>

record profile_page =
  isPreviewMode :: bool
  isPhotoDialogOpen :: bool
  isDeleteDialogOpen :: bool
  form :: profile
  profile_query :: "(profile option) query"
  invalidated :: "string list list"
  toasts :: "toast list"
  in_flight :: "profile list"
  last_mutation :: "(error + bool) option"

definition Profile_initial :: profile_page where
  "Profile_initial =
     \<lparr>isPreviewMode = True, isPhotoDialogOpen = False, isDeleteDialogOpen = False,
      form = empty_object, profile_query = Pending, invalidated = [], toasts = [],
      in_flight = [], last_mutation = None\<rparr>"

definition defaultAvatarImage :: string where
  "defaultAvatarImage = ''/placeholder.svg''"

definition defaultCoverImage :: string where
  "defaultCoverImage = ''/placeholder.svg''"

definition setIsPreviewMode :: "bool \<Rightarrow> profile_page \<Rightarrow> profile_page" where
  "setIsPreviewMode v pg = pg\<lparr>isPreviewMode := v\<rparr>"

definition setIsPhotoDialogOpen :: "bool \<Rightarrow> profile_page \<Rightarrow> profile_page" where
  "setIsPhotoDialogOpen v pg = pg\<lparr>isPhotoDialogOpen := v\<rparr>"

definition setIsDeleteDialogOpen :: "bool \<Rightarrow> profile_page \<Rightarrow> profile_page" where
  "setIsDeleteDialogOpen v pg = pg\<lparr>isDeleteDialogOpen := v\<rparr>"

definition emit_toast :: "toast \<Rightarrow> profile_page \<Rightarrow> profile_page" where
  "emit_toast t pg = pg\<lparr>toasts := toasts pg @ [t]\<rparr>"

definition invalidateQueries :: "string list \<Rightarrow> profile_page \<Rightarrow> profile_page" where
  "invalidateQueries key pg = pg\<lparr>invalidated := invalidated pg @ [key]\<rparr>"

text \<open>The form: \<^verbatim>\<open>setValue\<close>, \<^verbatim>\<open>getValues()\<close>, \<^verbatim>\<open>getValues(name)\<close>, \<^verbatim>\<open>reset\<close>.\<close>

definition form_setValue :: "field \<Rightarrow> jsval \<Rightarrow> profile_page \<Rightarrow> profile_page" where
  "form_setValue f v pg = pg\<lparr>form := (form pg)(f := v)\<rparr>"

definition form_getValues :: "profile_page \<Rightarrow> profile" where
  "form_getValues pg = form pg"

definition form_getValue :: "field \<Rightarrow> profile_page \<Rightarrow> jsval" where
  "form_getValue f pg = form pg f"

definition form_reset :: "profile \<Rightarrow> profile_page \<Rightarrow> profile_page" where
  "form_reset p pg = pg\<lparr>form := p\<rparr>"

subsection \<open>The profile query\<close>

text \<open>
  \<^verbatim>\<open>const { data: { user } } = await supabase.auth.getUser();\<close>
  \<^verbatim>\<open>if (!user) throw new Error("No user found");\<close>
  \<^verbatim>\<open>const { data: profile } = await ...single(); return profile;\<close>
  Only \<^verbatim>\<open>data\<close> of the answer is read.
\<close>

definition profile_queryFn :: "backend \<Rightarrow> error + profile option" where
  "profile_queryFn b =
     (case auth_getUser b of
        None \<Rightarrow> Inl (Error ''No user found'')
      | Some u \<Rightarrow> Inr (data (from_profiles_select_eq_id_single b (user_id u))))"

text \<open>The effect \<^verbatim>\<open>if (profile) form.reset(profile)\<close>, run when the query data changes.\<close>

definition useEffect_profile :: "profile_page \<Rightarrow> profile_page" where
  "useEffect_profile pg =
     (case query_data (profile_query pg) of
        Some (Some p) \<Rightarrow> form_reset p pg
      | _ \<Rightarrow> pg)"

text \<open>The first load of the query, and the refetch that an invalidation forces.\<close>

definition profile_load :: "backend \<Rightarrow> profile_page \<Rightarrow> profile_page" where
  "profile_load b pg =
     useEffect_profile (pg\<lparr>profile_query := useQuery_settle (profile_queryFn b)\<rparr>)"

definition profile_refetch :: "backend \<Rightarrow> profile_page \<Rightarrow> profile_page" where
  "profile_refetch b pg =
     (if [''profile''] \<in> set (invalidated pg)
      then useEffect_profile
             (pg\<lparr>profile_query := refetch_settle (profile_query pg) (profile_queryFn b),
                 invalidated := removeAll [''profile''] (invalidated pg)\<rparr>)
      else pg)"

subsection \<open>The mutation \<^verbatim>\<open>updateProfile\<close>\<close>

definition updateProfile_mutationFn :: "profile \<Rightarrow> backend \<Rightarrow> (error + bool) \<times> backend" where
  "updateProfile_mutationFn values b =
     (case auth_getUser b of
        None \<Rightarrow> (Inl (Error ''No user found''), b)
      | Some u \<Rightarrow>
          (case from_profiles_update_eq_id b values (user_id u) of
             (Some e, b') \<Rightarrow> (Inl e, b')
           | (None, b') \<Rightarrow> (Inr True, b')))"

text \<open>
  The description of the notification is
  \<^verbatim>\<open>Suas alteracoes foram salvas com sucesso\<close> with a cedilla and a tilde, written
  here as the bytes of its UTF-8 encoding.
\<close>

definition toast_updated :: toast where
  "toast_updated =
     \<lparr>title = ''Perfil atualizado'',
      description = ''Suas altera'' @ [CHR 0xC3, CHR 0xA7, CHR 0xC3, CHR 0xB5]
                    @ ''es foram salvas com sucesso''\<rparr>"

definition updateProfile_onSuccess :: "profile_page \<Rightarrow> profile_page" where
  "updateProfile_onSuccess pg =
     setIsPhotoDialogOpen False (emit_toast toast_updated (invalidateQueries [''profile''] pg))"

text \<open>
  \<^verbatim>\<open>updateProfile.mutate(values)\<close> starts the mutation and returns at once; the
  mutation function runs and resolves later. \<open>updateProfile_settle\<close> is that later step
  for the oldest mutation in flight: \<^verbatim>\<open>onSuccess\<close> runs when the mutation function
  returned, and does not run when it threw.
\<close>

definition updateProfile_mutate :: "profile \<Rightarrow> profile_page \<Rightarrow> profile_page" where
  "updateProfile_mutate values pg = pg\<lparr>in_flight := in_flight pg @ [values]\<rparr>"

definition updateProfile_settle :: "backend \<times> profile_page \<Rightarrow> backend \<times> profile_page" where
  "updateProfile_settle w =
     (case w of (b, pg) \<Rightarrow>
        (case in_flight pg of
           [] \<Rightarrow> (b, pg)
         | values # rest \<Rightarrow>
             (case updateProfile_mutationFn values b of
                (Inr ok, b') \<Rightarrow>
                  (b', updateProfile_onSuccess
                         (pg\<lparr>in_flight := rest, last_mutation := Some (Inr ok)\<rparr>))
              | (Inl e, b') \<Rightarrow>
                  (b', pg\<lparr>in_flight := rest, last_mutation := Some (Inl e)\<rparr>))))"

subsection \<open>Handlers\<close>

definition toast_avatar_removed :: toast where
  "toast_avatar_removed =
     \<lparr>title = ''Foto de perfil removida'',
      description = ''Sua foto de perfil foi removida com sucesso''\<rparr>"

definition toast_cover_removed :: toast where
  "toast_cover_removed =
     \<lparr>title = ''Foto de capa removida'',
      description = ''Sua foto de capa foi removida com sucesso''\<rparr>"

definition handleDeleteAvatar :: "profile_page \<Rightarrow> profile_page" where
  "handleDeleteAvatar pg =
     emit_toast toast_avatar_removed
       (setIsDeleteDialogOpen False
         (updateProfile_mutate (empty_object(Avatar_url := Null))
           (form_setValue Avatar_url Null pg)))"

definition handleDeleteCover :: "profile_page \<Rightarrow> profile_page" where
  "handleDeleteCover pg =
     emit_toast toast_cover_removed
       (setIsDeleteDialogOpen False
         (updateProfile_mutate (empty_object(Cover_url := Null))
           (form_setValue Cover_url Null pg)))"

text \<open>
  The edit form is rendered only outside the preview mode (\<^verbatim>\<open>!isPreviewMode && ...\<close>).
  Rendering it registers its two inputs, \<^verbatim>\<open>{...form.register("username")}\<close> and
  \<^verbatim>\<open>{...form.register("full_name")}\<close>: a registered field that has no value in the form
  takes the value of its empty input, the empty string; a field that holds \<^verbatim>\<open>null\<close> or a
  string keeps it.
\<close>

definition form_register :: "field \<Rightarrow> profile \<Rightarrow> profile" where
  "form_register f vals = (case vals f of Undefined \<Rightarrow> vals(f := Str []) | v \<Rightarrow> vals)"

definition render_edit_form :: "profile_page \<Rightarrow> profile_page" where
  "render_edit_form pg =
     (if isPreviewMode pg then pg
      else pg\<lparr>form := form_register Full_name (form_register Username (form pg))\<rparr>)"

text \<open>
  Submitting the edit form: \<^verbatim>\<open>updateProfile.mutate(form.getValues())\<close>. The handler
  belongs to the rendered form, so there is no submission in the preview mode, and the
  values it reads are those of the form with its inputs registered.
\<close>

definition form_onSubmit :: "profile_page \<Rightarrow> profile_page option" where
  "form_onSubmit pg =
     (if isPreviewMode pg then None
      else Some (updateProfile_mutate (form_getValues (render_edit_form pg))
                   (render_edit_form pg)))"

text \<open>
  The save button of the photo dialog:
  \<^verbatim>\<open>updateProfile.mutate({avatar_url: form.getValues("avatar_url"),\<close>
  \<^verbatim>\<open>cover_url: form.getValues("cover_url")})\<close>.
\<close>

definition photo_dialog_save :: "profile_page \<Rightarrow> profile_page" where
  "photo_dialog_save pg =
     updateProfile_mutate
       (empty_object(Avatar_url := form_getValue Avatar_url pg,
                     Cover_url := form_getValue Cover_url pg))
       pg"

text \<open>Typing into an input of the photo dialog or of the edit form.\<close>

definition input_onChange :: "field \<Rightarrow> string \<Rightarrow> profile_page \<Rightarrow> profile_page" where
  "input_onChange f v pg = form_setValue f (Str v) pg"

subsection \<open>Rendering the cover and the avatar\<close>

text \<open>
  \<^verbatim>\<open>profile?.avatar_url ? <img src=... onError=.../> : <div><p>Sem foto de perfil</p></div>\<close>.
  An image carries its source, its alternative text and the source that \<^verbatim>\<open>onError\<close>
  substitutes when loading fails; the other branch is a block of text and no image.
\<close>

datatype element = Img string string string | TextBlock string

fun optional_field :: "profile option option \<Rightarrow> field \<Rightarrow> jsval" where
  "optional_field (Some (Some p)) f = p f"
| "optional_field _ f = Undefined"

fun img_or :: "jsval \<Rightarrow> (string \<Rightarrow> element) \<Rightarrow> element \<Rightarrow> element" where
  "img_or (Str s) img other = (if truthy (Str s) then img s else other)"
| "img_or v img other = other"

definition render_cover :: "profile_page \<Rightarrow> element" where
  "render_cover pg =
     img_or (optional_field (query_data (profile_query pg)) Cover_url)
       (\<lambda>src. Img src ''Capa'' defaultCoverImage)
       (TextBlock ''Sem Capa de Perfil'')"

definition render_avatar :: "profile_page \<Rightarrow> element" where
  "render_avatar pg =
     img_or (optional_field (query_data (profile_query pg)) Avatar_url)
       (\<lambda>src. Img src ''Avatar'' defaultAvatarImage)
       (TextBlock ''Sem foto de perfil'')"

text \<open>What an element displays: the image source, if it is an image.\<close>

fun shown_image :: "element \<Rightarrow> string option" where
  "shown_image (Img src alt fallback) = Some src"
| "shown_image (TextBlock t) = None"

section \<open>BottomNav\<close>

text \<open>
  The component holds the session (\<^verbatim>\<open>useState<any>(null)\<close>). Its effect asks for the
  current session once and subscribes to the auth-state changes; both callbacks call
  \<^verbatim>\<open>setSession\<close>. The clean-up of the effect unsubscribes.
\<close>

record 's bottom_nav =
  session :: "'s option"
  subscribed :: bool

definition BottomNav_mounted :: "'s bottom_nav" where
  "BottomNav_mounted = \<lparr>session = None, subscribed = True\<rparr>"

definition setSession :: "'s option \<Rightarrow> 's bottom_nav \<Rightarrow> 's bottom_nav" where
  "setSession s nav = nav\<lparr>session := s\<rparr>"

datatype 's nav_event =
  GetSessionResolved "'s option"
| AuthStateChange string "'s option"
| Unmount

fun nav_step :: "'s bottom_nav \<Rightarrow> 's nav_event \<Rightarrow> 's bottom_nav" where
  "nav_step nav (GetSessionResolved s) = setSession s nav"
| "nav_step nav (AuthStateChange ev s) = (if subscribed nav then setSession s nav else nav)"
| "nav_step nav Unmount = nav\<lparr>subscribed := False\<rparr>"

text \<open>The target of the second link: \<^verbatim>\<open>to={session ? "/perfil" : "/login"}\<close>.\<close>

definition profile_link_to :: "'s bottom_nav \<Rightarrow> string" where
  "profile_link_to nav = (case session nav of Some s \<Rightarrow> ''/perfil'' | None \<Rightarrow> ''/login'')"

section \<open>Properties of the Places page\<close>

lemma in_set_when_truthy:
  "x \<in> set (when_truthy v el) \<longleftrightarrow> (\<exists>s. v = Some s \<and> s \<noteq> [] \<and> x = el s)"
  by (cases v) auto

lemma nonempty_iff: "nonempty v \<longleftrightarrow> (\<exists>s. v = Some s \<and> s \<noteq> [])"
  by (cases v) auto

lemma card_shows_iff: "card_shows k (place_card p) = contact_field_nonempty k p"
  by (cases k)
     (auto simp: card_shows_def place_card_def place_contacts_def in_set_when_truthy
                 nonempty_iff image_iff
           split: option.splits)

lemma Places_success: "Places (Success (Some rows)) = Grid (map place_card rows)"
  by (simp add: Places_def)

text \<open>
  Claim C4. For every place record of the fetched list, the card rendered for it shows
  the affordance of a kind (phone, whatsapp, website, facebook, instagram, maps) if and
  only if the corresponding field of that record is non-empty; for facebook and
  instagram the \<^verbatim>\<open>social_media\<close> object has to be present and its subfield non-empty.
  The grid has one card per record, in the order of the list.
\<close>

theorem places_card_contacts_iff_nonempty:
  assumes "grid_cards (Places (Success (Some rows))) = cs"
  shows "length cs = length rows \<and>
         (\<forall>i<length rows. \<forall>k. card_shows k (cs ! i) \<longleftrightarrow> contact_field_nonempty k (rows ! i))"
  using assms by (auto simp: Places_success card_shows_iff)

text \<open>
  A record with a phone, an empty whatsapp and a facebook link: the card has exactly the
  phone and the facebook affordances.
\<close>

theorem places_card_contacts_iff_nonempty_witness:
  "length (grid_cards (Places (Success (Some
      [\<lparr>id_place = ''p1'', name = ''Padaria'', description = None, address = None,
        owner_name = None, opening_hours = None, entrance_fee = None,
        phone = Some ''3133'', whatsapp = Some '''', website = None,
        social_media = Some \<lparr>facebook = Some ''https://fb.example/p'', instagram = None\<rparr>,
        maps_url = None, image_place = None\<rparr>])))) = 1
   \<and> card_contacts (grid_cards (Places (Success (Some
      [\<lparr>id_place = ''p1'', name = ''Padaria'', description = None, address = None,
        owner_name = None, opening_hours = None, entrance_fee = None,
        phone = Some ''3133'', whatsapp = Some '''', website = None,
        social_media = Some \<lparr>facebook = Some ''https://fb.example/p'', instagram = None\<rparr>,
        maps_url = None, image_place = None\<rparr>]))) ! 0)
     = [Anchor Phone ''tel:3133'', Anchor Facebook ''https://fb.example/p'']
   \<and> (\<forall>k. card_shows k (grid_cards (Places (Success (Some
      [\<lparr>id_place = ''p1'', name = ''Padaria'', description = None, address = None,
        owner_name = None, opening_hours = None, entrance_fee = None,
        phone = Some ''3133'', whatsapp = Some '''', website = None,
        social_media = Some \<lparr>facebook = Some ''https://fb.example/p'', instagram = None\<rparr>,
        maps_url = None, image_place = None\<rparr>]))) ! 0) \<longleftrightarrow> k = Phone \<or> k = Facebook)"
  using places_card_contacts_iff_nonempty [OF refl, of
      "[\<lparr>id_place = ''p1'', name = ''Padaria'', description = None, address = None,
        owner_name = None, opening_hours = None, entrance_fee = None,
        phone = Some ''3133'', whatsapp = Some '''', website = None,
        social_media = Some \<lparr>facebook = Some ''https://fb.example/p'', instagram = None\<rparr>,
        maps_url = None, image_place = None\<rparr>]"]
  apply (simp add: Places_def place_card_def place_contacts_def)
  apply (intro allI)
  subgoal for k by (cases k) simp_all
  done

subsection \<open>Order of the list\<close>





subsection \<open>Failure of the fetch\<close>

text \<open>
  Claim C8. The query function throws exactly when the answer of the row store carries
  an error, and returns the data of the answer otherwise. The cache turns the throw into
  the failed state of the query. The page renders the spinner exactly while the query is
  loading; for a failed query it renders the grid of whatever data the query holds (the
  empty grid after a failed first fetch), the same as for a successful query: there is no
  error branch.
\<close>

theorem places_queryFn_throws_iff_error:
  "(error r = None \<longrightarrow> places_queryFn_of r = Inr (data r)) \<and>
   (\<forall>e. error r = Some e \<longrightarrow>
      places_queryFn_of r = Inl e \<and>
      useQuery_settle (places_queryFn_of r) = Failed e None \<and>
      Places (useQuery_settle (places_queryFn_of r)) = Grid []) \<and>
   ((\<exists>e. places_queryFn_of r = Inl e) \<longleftrightarrow> error r \<noteq> None) \<and>
   (Places q = Spinner \<longleftrightarrow> q = Pending) \<and>
   (\<forall>e old. Places (Failed e old) =
      (case old of None \<Rightarrow> Grid [] | Some d \<Rightarrow> Places (Success d)))"
  by (cases q) (auto simp: places_queryFn_of_def Places_def split: option.splits)

text \<open>An answer with an error, an answer with an empty list, and the query in flight.\<close>

theorem places_queryFn_throws_iff_error_witness:
  "places_queryFn_of \<lparr>data = None, error = Some (StoreError ''timeout'')\<rparr>
     = Inl (StoreError ''timeout'')
   \<and> Places (useQuery_settle
        (places_queryFn_of \<lparr>data = None, error = Some (StoreError ''timeout'')\<rparr>)) = Grid []
   \<and> places_queryFn_of \<lparr>data = Some [], error = None\<rparr> = Inr (Some [])
   \<and> Places Pending = Spinner"
  using places_queryFn_throws_iff_error
          [of "\<lparr>data = None, error = Some (StoreError ''timeout'')\<rparr>" Pending]
        places_queryFn_throws_iff_error [of "\<lparr>data = Some [], error = None\<rparr>" Pending]
  by simp

section \<open>Properties of the navigation bar\<close>

text \<open>
  Claim C1. For every held session value, the link labelled Eu targets \<^verbatim>\<open>/perfil\<close> when
  the session is present and \<^verbatim>\<open>/login\<close> when it is absent. An auth-state-change
  notification that reaches the mounted component replaces the held session by the one
  it delivers, so the target follows the new session: the update is a step of the
  component state, not a new mount.
\<close>

theorem bottom_nav_profile_link:
  "profile_link_to nav = (if session nav = None then ''/login'' else ''/perfil'') \<and>
   (subscribed nav \<longrightarrow>
      session (nav_step nav (AuthStateChange ev s)) = s \<and>
      profile_link_to (nav_step nav (AuthStateChange ev s))
        = (if s = None then ''/login'' else ''/perfil''))"
  by (auto simp: profile_link_to_def setSession_def split: option.splits)

text \<open>
  The scenario: no session after the mount, so \<^verbatim>\<open>/login\<close>; after the sign-in
  notification \<^verbatim>\<open>/perfil\<close>; after a sign-out \<^verbatim>\<open>/login\<close> again.
\<close>

theorem bottom_nav_profile_link_witness:
  "profile_link_to (BottomNav_mounted :: string bottom_nav) = ''/login''
   \<and> profile_link_to
        (nav_step (BottomNav_mounted :: string bottom_nav)
           (AuthStateChange ''SIGNED_IN'' (Some ''token''))) = ''/perfil''
   \<and> profile_link_to
        (nav_step \<lparr>session = Some ''token'', subscribed = True\<rparr>
           (AuthStateChange ''SIGNED_OUT'' None)) = ''/login''"
  using bottom_nav_profile_link
          [of "BottomNav_mounted :: string bottom_nav" "''SIGNED_IN''" "Some ''token''"]
        bottom_nav_profile_link
          [of "\<lparr>session = Some ''token'', subscribed = True\<rparr>" "''SIGNED_OUT''" None]
  by (simp add: BottomNav_mounted_def)

section \<open>Properties of the profile query\<close>

lemma profile_queryFn_no_user:
  "auth_user b = None \<Longrightarrow> profile_queryFn b = Inl (Error ''No user found'')"
  by (simp add: profile_queryFn_def auth_getUser_def)

lemma profile_queryFn_user:
  "auth_user b = Some u \<Longrightarrow>
   profile_queryFn b = Inr (data (from_profiles_select_eq_id_single b (user_id u)))"
  by (simp add: profile_queryFn_def auth_getUser_def)

lemma select_single_failure:
  "store_failure b = Some e \<Longrightarrow>
   from_profiles_select_eq_id_single b uid = \<lparr>data = None, error = Some e\<rparr>"
  by (simp add: from_profiles_select_eq_id_single_def)

lemma select_single_one:
  "store_failure b = None \<Longrightarrow> filter (\<lambda>r. r Id_field = Str uid) (profiles b) = [r] \<Longrightarrow>
   from_profiles_select_eq_id_single b uid = \<lparr>data = Some r, error = None\<rparr>"
  by (simp add: from_profiles_select_eq_id_single_def)

lemma select_single_none:
  "store_failure b = None \<Longrightarrow> filter (\<lambda>r. r Id_field = Str uid) (profiles b) = [] \<Longrightarrow>
   from_profiles_select_eq_id_single b uid
     = \<lparr>data = None, error = Some (StoreError ''PGRST116'')\<rparr>"
  by (simp add: from_profiles_select_eq_id_single_def)

lemma select_single_data_None:
  "error (from_profiles_select_eq_id_single b uid) \<noteq> None \<Longrightarrow>
   data (from_profiles_select_eq_id_single b uid) = None"
  by (auto simp: from_profiles_select_eq_id_single_def split: option.splits list.splits)

lemma filter_single_holds: "filter P xs = [r] \<Longrightarrow> P r"
proof -
  assume a: "filter P xs = [r]"
  have "r \<in> set (filter P xs)" unfolding a by simp
  then show "P r" by simp
qed

text \<open>
  Claim C6. The query function of the profile throws (the error \<^verbatim>\<open>No user found\<close>)
  exactly when there is no authenticated user. With a user \<open>u\<close> it asks the row store
  for the single row of \<^verbatim>\<open>profiles\<close> whose \<^verbatim>\<open>id\<close> is the id of \<open>u\<close> and returns the data of
  the answer: that row, when the store holds exactly one such row and answers.
\<close>

theorem profile_queryFn_requires_user:
  "(profile_queryFn b = Inl (Error ''No user found'') \<longleftrightarrow> auth_user b = None) \<and>
   ((\<exists>e. profile_queryFn b = Inl e) \<longleftrightarrow> auth_user b = None) \<and>
   (\<forall>u. auth_user b = Some u \<longrightarrow>
      profile_queryFn b = Inr (data (from_profiles_select_eq_id_single b (user_id u))) \<and>
      (\<forall>r. store_failure b = None \<and>
           filter (\<lambda>r. r Id_field = Str (user_id u)) (profiles b) = [r] \<longrightarrow>
           profile_queryFn b = Inr (Some r) \<and> r Id_field = Str (user_id u)))"
proof (cases "auth_user b")
  case None
  have "profile_queryFn b = Inl (Error ''No user found'')"
    using None by (rule profile_queryFn_no_user)
  with None show ?thesis by simp
next
  case (Some u)
  have q: "profile_queryFn b = Inr (data (from_profiles_select_eq_id_single b (user_id u)))"
    using Some by (rule profile_queryFn_user)
  have one: "profile_queryFn b = Inr (Some r) \<and> r Id_field = Str (user_id u)"
    if "store_failure b = None \<and> filter (\<lambda>r. r Id_field = Str (user_id u)) (profiles b) = [r]" for r
  proof
    show "profile_queryFn b = Inr (Some r)"
      using that by (simp add: q select_single_one)
    show "r Id_field = Str (user_id u)"
      using that filter_single_holds [of "\<lambda>r. r Id_field = Str (user_id u)" "profiles b" r] by blast
  qed
  show ?thesis
  proof (intro conjI allI impI)
    show "(profile_queryFn b = Inl (Error ''No user found'')) = (auth_user b = None)"
      by (simp add: q Some)
    show "(\<exists>e. profile_queryFn b = Inl e) = (auth_user b = None)"
      by (simp add: q Some)
  next
    fix u' assume "auth_user b = Some u'"
    then have u': "u' = u" by (simp add: Some)
    show "profile_queryFn b = Inr (data (from_profiles_select_eq_id_single b (user_id u')))"
      unfolding u' by (rule q)
    fix r
    assume "store_failure b = None \<and>
            filter (\<lambda>r. r Id_field = Str (user_id u')) (profiles b) = [r]"
    then have "profile_queryFn b = Inr (Some r) \<and> r Id_field = Str (user_id u)"
      unfolding u' by (rule one)
    then show "profile_queryFn b = Inr (Some r)" and "r Id_field = Str (user_id u')"
      unfolding u' by blast+
  qed
qed

text \<open>No user: the throw. User \<^verbatim>\<open>u1\<close> and rows \<^verbatim>\<open>u0\<close>, \<^verbatim>\<open>u1\<close>: the row of \<^verbatim>\<open>u1\<close>.\<close>

theorem profile_queryFn_requires_user_witness:
  "profile_queryFn \<lparr>auth_user = None, profiles = [], places = [], store_failure = None\<rparr>
     = Inl (Error ''No user found'')
   \<and> profile_queryFn
        \<lparr>auth_user = Some \<lparr>user_id = ''u1''\<rparr>,
         profiles = [empty_object(Id_field := Str ''u0''), empty_object(Id_field := Str ''u1'')],
         places = [], store_failure = None\<rparr>
     = Inr (Some (empty_object(Id_field := Str ''u1'')))"
  using profile_queryFn_requires_user
          [of "\<lparr>auth_user = None, profiles = [], places = [], store_failure = None\<rparr>"]
        profile_queryFn_requires_user
          [of "\<lparr>auth_user = Some \<lparr>user_id = ''u1''\<rparr>,
                profiles = [empty_object(Id_field := Str ''u0''), empty_object(Id_field := Str ''u1'')],
                places = [], store_failure = None\<rparr>"]
  by (simp add: empty_object_def from_profiles_select_eq_id_single_def)

text \<open>
  Claim C10. Once the user check has passed, the query function reads only the data of
  the answer of the row store and never its error: it returns that data and does not
  throw. When the answer carries an error (the store fails, or no single row matches)
  the data is \<^verbatim>\<open>null\<close>, the function returns \<^verbatim>\<open>null\<close>, and the cache holds a successful
  query with an empty profile, not a failed one.
\<close>

theorem profile_queryFn_ignores_store_error:
  assumes "auth_user b = Some u"
  shows "profile_queryFn b = Inr (data (from_profiles_select_eq_id_single b (user_id u))) \<and>
         (\<forall>e. profile_queryFn b \<noteq> Inl e) \<and>
         useQuery_settle (profile_queryFn b)
           = Success (data (from_profiles_select_eq_id_single b (user_id u))) \<and>
         (error (from_profiles_select_eq_id_single b (user_id u)) \<noteq> None \<longrightarrow>
            profile_queryFn b = Inr None \<and>
            useQuery_settle (profile_queryFn b) = Success None) \<and>
         (\<forall>e. store_failure b = Some e \<longrightarrow>
            error (from_profiles_select_eq_id_single b (user_id u)) = Some e \<and>
            profile_queryFn b = Inr None) \<and>
         (store_failure b = None \<and>
          filter (\<lambda>r. r Id_field = Str (user_id u)) (profiles b) = [] \<longrightarrow>
            error (from_profiles_select_eq_id_single b (user_id u)) \<noteq> None \<and>
            profile_queryFn b = Inr None)"
  using assms
  by (auto simp: profile_queryFn_user select_single_data_None select_single_failure
        select_single_none)

text \<open>A failing store and a store without the row both give a successful empty profile.\<close>

theorem profile_queryFn_ignores_store_error_witness:
  "profile_queryFn
     \<lparr>auth_user = Some \<lparr>user_id = ''u1''\<rparr>, profiles = [empty_object(Id_field := Str ''u1'')],
      places = [], store_failure = Some (StoreError ''connection lost'')\<rparr> = Inr None
   \<and> useQuery_settle (profile_queryFn
     \<lparr>auth_user = Some \<lparr>user_id = ''u1''\<rparr>, profiles = [empty_object(Id_field := Str ''u1'')],
      places = [], store_failure = Some (StoreError ''connection lost'')\<rparr>) = Success None
   \<and> profile_queryFn
     \<lparr>auth_user = Some \<lparr>user_id = ''u1''\<rparr>, profiles = [],
      places = [], store_failure = None\<rparr> = Inr None"
  using profile_queryFn_ignores_store_error
          [of "\<lparr>auth_user = Some \<lparr>user_id = ''u1''\<rparr>,
                profiles = [empty_object(Id_field := Str ''u1'')],
                places = [], store_failure = Some (StoreError ''connection lost'')\<rparr>"
              "\<lparr>user_id = ''u1''\<rparr>"]
        profile_queryFn_ignores_store_error
          [of "\<lparr>auth_user = Some \<lparr>user_id = ''u1''\<rparr>, profiles = [],
                places = [], store_failure = None\<rparr>" "\<lparr>user_id = ''u1''\<rparr>"]
  by (simp add: from_profiles_select_eq_id_single_def)

section \<open>Properties of the profile mutation\<close>

lemma mutationFn_no_user:
  "auth_user b = None \<Longrightarrow>
   updateProfile_mutationFn values b = (Inl (Error ''No user found''), b)"
  by (simp add: updateProfile_mutationFn_def auth_getUser_def)

lemma mutationFn_failure:
  "auth_user b = Some u \<Longrightarrow> store_failure b = Some e \<Longrightarrow>
   updateProfile_mutationFn values b = (Inl e, b)"
  by (simp add: updateProfile_mutationFn_def auth_getUser_def from_profiles_update_eq_id_def)

lemma mutationFn_ok:
  "auth_user b = Some u \<Longrightarrow> store_failure b = None \<Longrightarrow>
   updateProfile_mutationFn values b =
     (Inr True,
      b\<lparr>profiles := map (\<lambda>r. if r Id_field = Str (user_id u) then apply_update values r else r)
                       (profiles b)\<rparr>)"
  by (simp add: updateProfile_mutationFn_def auth_getUser_def from_profiles_update_eq_id_def)

lemma settle_no_user:
  "in_flight pg = values # rest \<Longrightarrow> auth_user b = None \<Longrightarrow>
   updateProfile_settle (b, pg) =
     (b, pg\<lparr>in_flight := rest, last_mutation := Some (Inl (Error ''No user found''))\<rparr>)"
  by (simp add: updateProfile_settle_def mutationFn_no_user)

lemma settle_failure:
  "in_flight pg = values # rest \<Longrightarrow> auth_user b = Some u \<Longrightarrow> store_failure b = Some e \<Longrightarrow>
   updateProfile_settle (b, pg) = (b, pg\<lparr>in_flight := rest, last_mutation := Some (Inl e)\<rparr>)"
  by (simp add: updateProfile_settle_def mutationFn_failure)

lemma settle_ok:
  "in_flight pg = values # rest \<Longrightarrow> auth_user b = Some u \<Longrightarrow> store_failure b = None \<Longrightarrow>
   updateProfile_settle (b, pg) =
     (b\<lparr>profiles := map (\<lambda>r. if r Id_field = Str (user_id u) then apply_update values r else r)
                       (profiles b)\<rparr>,
      updateProfile_onSuccess (pg\<lparr>in_flight := rest, last_mutation := Some (Inr True)\<rparr>))"
  by (simp add: updateProfile_settle_def mutationFn_ok)

lemma onSuccess_fields:
  "invalidated (updateProfile_onSuccess pg) = invalidated pg @ [[''profile'']]"
  "toasts (updateProfile_onSuccess pg) = toasts pg @ [toast_updated]"
  "isPhotoDialogOpen (updateProfile_onSuccess pg) = False"
  "last_mutation (updateProfile_onSuccess pg) = last_mutation pg"
  "in_flight (updateProfile_onSuccess pg) = in_flight pg"
  "profile_query (updateProfile_onSuccess pg) = profile_query pg"
  "isDeleteDialogOpen (updateProfile_onSuccess pg) = isDeleteDialogOpen pg"
  by (simp_all add: updateProfile_onSuccess_def setIsPhotoDialogOpen_def emit_toast_def
        invalidateQueries_def)

lemma mutate_fields:
  "in_flight (updateProfile_mutate values pg) = in_flight pg @ [values]"
  "invalidated (updateProfile_mutate values pg) = invalidated pg"
  "toasts (updateProfile_mutate values pg) = toasts pg"
  "last_mutation (updateProfile_mutate values pg) = last_mutation pg"
  "profile_query (updateProfile_mutate values pg) = profile_query pg"
  "form (updateProfile_mutate values pg) = form pg"
  by (simp_all add: updateProfile_mutate_def)

lemma apply_update_present: "values f \<noteq> Undefined \<Longrightarrow> apply_update values r f = values f"
  by (cases "values f") (simp_all add: apply_update_def)

lemma apply_update_keeps_id:
  "values Id_field = Undefined \<or> values Id_field = Str uid \<Longrightarrow> r Id_field = Str uid \<Longrightarrow>
   apply_update values r Id_field = Str uid"
  by (auto simp: apply_update_def)

lemma filter_id_update:
  assumes "values Id_field = Undefined \<or> values Id_field = Str uid"
  shows "filter (\<lambda>r. r Id_field = Str uid)
           (map (\<lambda>r. if r Id_field = Str uid then apply_update values r else r) xs)
         = map (apply_update values) (filter (\<lambda>r. r Id_field = Str uid) xs)"
proof (induction xs)
  case Nil
  show ?case by simp
next
  case (Cons x xs)
  show ?case
  proof (cases "x Id_field = Str uid")
    case True
    with assms have "apply_update values x Id_field = Str uid"
      by (simp add: apply_update_keeps_id)
    with True Cons show ?thesis by simp
  next
    case False
    with Cons show ?thesis by simp
  qed
qed

lemma query_data_useEffect:
  "query_data (profile_query (useEffect_profile pg)) = query_data (profile_query pg)"
  by (simp add: useEffect_profile_def form_reset_def split: option.splits)

lemma refetch_reads_row:
  assumes "[''profile''] \<in> set (invalidated pg)" and "auth_user b = Some u"
    and "store_failure b = None"
    and "filter (\<lambda>r. r Id_field = Str (user_id u)) (profiles b) = [r]"
  shows "query_data (profile_query (profile_refetch b pg)) = Some (Some r)"
proof -
  have "profile_queryFn b = Inr (Some r)"
    using assms(2-4) by (simp add: profile_queryFn_user select_single_one)
  then show ?thesis
    using assms(1) by (simp add: profile_refetch_def query_data_useEffect)
qed

lemma settle_cases:
  assumes "in_flight pg = [values]" and "updateProfile_settle (b, pg) = (b', pg')"
  shows "(auth_user b = None \<and> b' = b \<and>
          pg' = pg\<lparr>in_flight := [], last_mutation := Some (Inl (Error ''No user found''))\<rparr>)
       \<or> (\<exists>u e. auth_user b = Some u \<and> store_failure b = Some e \<and> b' = b \<and>
            pg' = pg\<lparr>in_flight := [], last_mutation := Some (Inl e)\<rparr>)
       \<or> (\<exists>u. auth_user b = Some u \<and> store_failure b = None \<and>
            b' = b\<lparr>profiles :=
                     map (\<lambda>r. if r Id_field = Str (user_id u) then apply_update values r else r)
                       (profiles b)\<rparr> \<and>
            pg' = updateProfile_onSuccess
                    (pg\<lparr>in_flight := [], last_mutation := Some (Inr True)\<rparr>))"
proof (cases "auth_user b")
  case None
  from settle_no_user [OF assms(1) None] assms(2) None show ?thesis by simp
next
  case (Some u)
  show ?thesis
  proof (cases "store_failure b")
    case None
    from settle_ok [OF assms(1) Some None] assms(2) Some None show ?thesis by simp
  next
    case (Some e)
    from settle_failure [OF assms(1) \<open>auth_user b = Some u\<close> Some] assms(2)
      \<open>auth_user b = Some u\<close> Some
    show ?thesis by simp
  qed
qed

lemma mutate_in_flight: "in_flight pg = [] \<Longrightarrow> in_flight (updateProfile_mutate values pg) = [values]"
  by (simp add: mutate_fields)

lemma contract_no_user:
  assumes "in_flight pg = []"
    and "updateProfile_settle (b, updateProfile_mutate values pg) = (b', pg')"
    and "auth_user b = None"
  shows "last_mutation pg' = Some (Inl (Error ''No user found'')) \<and> b' = b"
  using settle_cases [OF mutate_in_flight [OF assms(1)] assms(2)] assms(3)
  by (elim disjE exE conjE) simp_all

lemma contract_rows:
  assumes "in_flight pg = []"
    and "updateProfile_settle (b, updateProfile_mutate values pg) = (b', pg')"
    and "auth_user b = Some u"
  shows "profiles b' =
           (if store_failure b = None
            then map (\<lambda>r. if r Id_field = Str (user_id u) then apply_update values r else r)
                   (profiles b)
            else profiles b)"
  using settle_cases [OF mutate_in_flight [OF assms(1)] assms(2)] assms(3)
  by (elim disjE exE conjE) simp_all

lemma contract_other_rows:
  assumes "in_flight pg = []"
    and "updateProfile_settle (b, updateProfile_mutate values pg) = (b', pg')"
    and "auth_user b = Some u"
  shows "length (profiles b') = length (profiles b) \<and>
         (\<forall>i<length (profiles b).
            (profiles b ! i) Id_field \<noteq> Str (user_id u) \<longrightarrow> profiles b' ! i = profiles b ! i)"
  by (simp add: contract_rows [OF assms])

lemma contract_success_iff:
  assumes "in_flight pg = []"
    and "updateProfile_settle (b, updateProfile_mutate values pg) = (b', pg')"
  shows "last_mutation pg' = Some (Inr True) \<longleftrightarrow> auth_user b \<noteq> None \<and> store_failure b = None"
  using settle_cases [OF mutate_in_flight [OF assms(1)] assms(2)]
  by (elim disjE exE conjE) (simp_all add: onSuccess_fields)

lemma contract_effects:
  assumes "in_flight pg = []"
    and "updateProfile_settle (b, updateProfile_mutate values pg) = (b', pg')"
  shows "invalidated pg' =
           invalidated pg @ (if last_mutation pg' = Some (Inr True) then [[''profile'']] else [])"
    and "toasts pg' =
           toasts pg @ (if last_mutation pg' = Some (Inr True) then [toast_updated] else [])"
  using settle_cases [OF mutate_in_flight [OF assms(1)] assms(2)]
  by (elim disjE exE conjE; simp add: onSuccess_fields mutate_fields)+

lemma contract_refetch:
  assumes "in_flight pg = []"
    and "updateProfile_settle (b, updateProfile_mutate values pg) = (b', pg')"
    and u: "auth_user b = Some u" and ok: "store_failure b = None"
    and one: "filter (\<lambda>r. r Id_field = Str (user_id u)) (profiles b) = [r]"
    and idk: "values Id_field = Undefined \<or> values Id_field = Str (user_id u)"
  shows "query_data (profile_query (profile_refetch b' pg')) = Some (Some (apply_update values r))"
proof -
  from settle_cases [OF mutate_in_flight [OF assms(1)] assms(2)] u ok
  have b': "b' = b\<lparr>profiles :=
                     map (\<lambda>r. if r Id_field = Str (user_id u) then apply_update values r else r)
                       (profiles b)\<rparr>"
    and pg': "pg' = updateProfile_onSuccess
                    ((updateProfile_mutate values pg)
                       \<lparr>in_flight := [], last_mutation := Some (Inr True)\<rparr>)"
    by (elim disjE exE conjE; simp)+
  have inv: "[''profile''] \<in> set (invalidated pg')"
    by (simp add: pg' onSuccess_fields)
  have au: "auth_user b' = Some u" and sf: "store_failure b' = None"
    by (simp_all add: b' u ok)
  have rows: "filter (\<lambda>r. r Id_field = Str (user_id u)) (profiles b') = [apply_update values r]"
    using filter_id_update [of "values" "user_id u" "profiles b"] idk by (simp add: b' one)
  show ?thesis by (rule refetch_reads_row [OF inv au sf rows])
qed

text \<open>
  Claim C3. For every update payload, started by \<^verbatim>\<open>mutate\<close> with no other mutation in
  flight and then resolved against a backend:
  \<^item> without an authenticated user the mutation fails with \<^verbatim>\<open>No user found\<close> and the
    backend is unchanged;
  \<^item> with a user, the update is restricted to the rows whose \<^verbatim>\<open>id\<close> is the id of that
    user: no row is added or removed, every other row is unchanged, and the rows of the
    user take the payload when the store answers without error;
  \<^item> the mutation succeeds exactly when there is a user and the store does not fail, and
    exactly then the \<^verbatim>\<open>["profile"]\<close> query is invalidated and the notification
    \<^verbatim>\<open>Perfil atualizado\<close> is emitted;
  \<^item> after a success, when the store holds one row for the user and the payload leaves
    \<^verbatim>\<open>id\<close> alone, the refetch forced by the invalidation reads the updated row, which
    has the value of the payload in every field the payload holds.
\<close>

theorem updateProfile_contract:
  assumes "in_flight pg = []"
    and "updateProfile_settle (b, updateProfile_mutate values pg) = (b', pg')"
  shows
   "(auth_user b = None \<longrightarrow>
       last_mutation pg' = Some (Inl (Error ''No user found'')) \<and> b' = b) \<and>
    (\<forall>u. auth_user b = Some u \<longrightarrow>
       length (profiles b') = length (profiles b) \<and>
       (\<forall>i<length (profiles b).
          (profiles b ! i) Id_field \<noteq> Str (user_id u) \<longrightarrow> profiles b' ! i = profiles b ! i)) \<and>
    (\<forall>u. auth_user b = Some u \<longrightarrow>
       profiles b' =
         (if store_failure b = None
          then map (\<lambda>r. if r Id_field = Str (user_id u) then apply_update values r else r)
                 (profiles b)
          else profiles b)) \<and>
    (last_mutation pg' = Some (Inr True) \<longleftrightarrow> auth_user b \<noteq> None \<and> store_failure b = None) \<and>
    invalidated pg' =
      invalidated pg @ (if last_mutation pg' = Some (Inr True) then [[''profile'']] else []) \<and>
    toasts pg' =
      toasts pg @ (if last_mutation pg' = Some (Inr True) then [toast_updated] else []) \<and>
    (\<forall>u r. auth_user b = Some u \<and> store_failure b = None \<and>
       filter (\<lambda>r. r Id_field = Str (user_id u)) (profiles b) = [r] \<and>
       (values Id_field = Undefined \<or> values Id_field = Str (user_id u)) \<longrightarrow>
       query_data (profile_query (profile_refetch b' pg')) = Some (Some (apply_update values r)) \<and>
       (\<forall>f. values f \<noteq> Undefined \<longrightarrow> apply_update values r f = values f))"
proof (intro conjI allI impI)
  show "last_mutation pg' = Some (Inl (Error ''No user found''))" and "b' = b"
    if "auth_user b = None"
    using contract_no_user [OF assms that] by simp_all
  show "length (profiles b') = length (profiles b)" if "auth_user b = Some u" for u
    using contract_other_rows [OF assms that] by simp
  show "profiles b' ! i = profiles b ! i"
    if "auth_user b = Some u" "i < length (profiles b)"
       "(profiles b ! i) Id_field \<noteq> Str (user_id u)" for u i
    using contract_other_rows [OF assms that(1)] that(2,3) by simp
  show "profiles b' =
         (if store_failure b = None
          then map (\<lambda>r. if r Id_field = Str (user_id u) then apply_update values r else r)
                 (profiles b)
          else profiles b)" if "auth_user b = Some u" for u
    by (rule contract_rows [OF assms that])
  show "(last_mutation pg' = Some (Inr True)) = (auth_user b \<noteq> None \<and> store_failure b = None)"
    by (rule contract_success_iff [OF assms])
  show "invalidated pg' =
      invalidated pg @ (if last_mutation pg' = Some (Inr True) then [[''profile'']] else [])"
    by (rule contract_effects(1) [OF assms])
  show "toasts pg' =
      toasts pg @ (if last_mutation pg' = Some (Inr True) then [toast_updated] else [])"
    by (rule contract_effects(2) [OF assms])
  show "query_data (profile_query (profile_refetch b' pg')) = Some (Some (apply_update values r))"
    if "auth_user b = Some u \<and> store_failure b = None \<and>
       filter (\<lambda>r. r Id_field = Str (user_id u)) (profiles b) = [r] \<and>
       (values Id_field = Undefined \<or> values Id_field = Str (user_id u))" for u r
    proof -
    from that have a: "auth_user b = Some u" and s: "store_failure b = None"
      and f: "filter (\<lambda>r. r Id_field = Str (user_id u)) (profiles b) = [r]"
      and i: "values Id_field = Undefined \<or> values Id_field = Str (user_id u)"
      by simp_all
    show ?thesis by (rule contract_refetch [OF assms a s f i])
  qed
  show "apply_update values r f = values f" if "values f \<noteq> Undefined" for r f
    using that by (rule apply_update_present)
qed

text \<open>The user \<^verbatim>\<open>u1\<close> renames \<^verbatim>\<open>ana\<close> to \<^verbatim>\<open>bia\<close>; the refetch reads \<^verbatim>\<open>bia\<close>.\<close>

theorem updateProfile_contract_witness:
  "in_flight Profile_initial = []
   \<and> last_mutation (snd (updateProfile_settle
        (\<lparr>auth_user = Some \<lparr>user_id = ''u1''\<rparr>,
          profiles = [empty_object(Id_field := Str ''u1'', Username := Str ''ana'')],
          places = [], store_failure = None\<rparr>,
         updateProfile_mutate (empty_object(Username := Str ''bia'')) Profile_initial)))
       = Some (Inr True)
   \<and> toasts (snd (updateProfile_settle
        (\<lparr>auth_user = Some \<lparr>user_id = ''u1''\<rparr>,
          profiles = [empty_object(Id_field := Str ''u1'', Username := Str ''ana'')],
          places = [], store_failure = None\<rparr>,
         updateProfile_mutate (empty_object(Username := Str ''bia'')) Profile_initial)))
       = [toast_updated]
   \<and> invalidated (snd (updateProfile_settle
        (\<lparr>auth_user = Some \<lparr>user_id = ''u1''\<rparr>,
          profiles = [empty_object(Id_field := Str ''u1'', Username := Str ''ana'')],
          places = [], store_failure = None\<rparr>,
         updateProfile_mutate (empty_object(Username := Str ''bia'')) Profile_initial)))
       = [[''profile'']]
   \<and> query_data (profile_query (profile_refetch
        (fst (updateProfile_settle
        (\<lparr>auth_user = Some \<lparr>user_id = ''u1''\<rparr>,
          profiles = [empty_object(Id_field := Str ''u1'', Username := Str ''ana'')],
          places = [], store_failure = None\<rparr>,
         updateProfile_mutate (empty_object(Username := Str ''bia'')) Profile_initial)))
        (snd (updateProfile_settle
        (\<lparr>auth_user = Some \<lparr>user_id = ''u1''\<rparr>,
          profiles = [empty_object(Id_field := Str ''u1'', Username := Str ''ana'')],
          places = [], store_failure = None\<rparr>,
         updateProfile_mutate (empty_object(Username := Str ''bia'')) Profile_initial)))))
       = Some (Some (apply_update (empty_object(Username := Str ''bia''))
                       (empty_object(Id_field := Str ''u1'', Username := Str ''ana''))))
   \<and> apply_update (empty_object(Username := Str ''bia''))
         (empty_object(Id_field := Str ''u1'', Username := Str ''ana'')) Username = Str ''bia''
   \<and> apply_update (empty_object(Username := Str ''bia''))
         (empty_object(Id_field := Str ''u1'', Username := Str ''ana'')) Id_field = Str ''u1''"
proof -
  let ?r = "empty_object(Id_field := Str ''u1'', Username := Str ''ana'')"
  let ?v = "empty_object(Username := Str ''bia'')"
  let ?b = "\<lparr>auth_user = Some \<lparr>user_id = ''u1''\<rparr>, profiles = [?r], places = [],
            store_failure = None\<rparr>"
  let ?W = "updateProfile_settle (?b, updateProfile_mutate ?v Profile_initial)"
  have h1: "in_flight Profile_initial = []"
    by (simp add: Profile_initial_def)
  have h2: "?W = (fst ?W, snd ?W)"
    by simp
  note T = updateProfile_contract [OF h1 h2]
  have ini: "toasts Profile_initial = []" "invalidated Profile_initial = []"
    by (simp_all add: Profile_initial_def)
  have ok: "last_mutation (snd ?W) = Some (Inr True)"
    using T by simp
  have one: "filter (\<lambda>r. r Id_field = Str ''u1'') (profiles ?b) = [?r]"
    by simp
  have idk: "?v Id_field = Undefined"
    by (simp add: empty_object_def)
  have q: "query_data (profile_query (profile_refetch (fst ?W) (snd ?W)))
             = Some (Some (apply_update ?v ?r))"
    using T one idk by simp
  have t: "toasts (snd ?W) = [toast_updated]" and i: "invalidated (snd ?W) = [[''profile'']]"
    using T ok ini by simp_all
  show ?thesis
    using h1 ok t i q by (simp add: apply_update_def empty_object_def)
qed

section \<open>Properties of the delete handlers\<close>

lemma handleDeleteAvatar_fields:
  "isDeleteDialogOpen (handleDeleteAvatar pg) = False"
  "toasts (handleDeleteAvatar pg) = toasts pg @ [toast_avatar_removed]"
  "in_flight (handleDeleteAvatar pg) = in_flight pg @ [empty_object(Avatar_url := Null)]"
  "last_mutation (handleDeleteAvatar pg) = last_mutation pg"
  "form (handleDeleteAvatar pg) = (form pg)(Avatar_url := Null)"
  "profile_query (handleDeleteAvatar pg) = profile_query pg"
  "invalidated (handleDeleteAvatar pg) = invalidated pg"
  by (simp_all add: handleDeleteAvatar_def emit_toast_def setIsDeleteDialogOpen_def
        updateProfile_mutate_def form_setValue_def)

lemma handleDeleteCover_fields:
  "isDeleteDialogOpen (handleDeleteCover pg) = False"
  "toasts (handleDeleteCover pg) = toasts pg @ [toast_cover_removed]"
  "in_flight (handleDeleteCover pg) = in_flight pg @ [empty_object(Cover_url := Null)]"
  "last_mutation (handleDeleteCover pg) = last_mutation pg"
  "form (handleDeleteCover pg) = (form pg)(Cover_url := Null)"
  "profile_query (handleDeleteCover pg) = profile_query pg"
  "invalidated (handleDeleteCover pg) = invalidated pg"
  by (simp_all add: handleDeleteCover_def emit_toast_def setIsDeleteDialogOpen_def
        updateProfile_mutate_def form_setValue_def)

lemma settle_fails:
  assumes "in_flight pg = [values]" and "updateProfile_settle (b, pg) = (b', pg')"
    and "auth_user b = None \<or> store_failure b \<noteq> None"
  shows "b' = b \<and> (\<exists>e. last_mutation pg' = Some (Inl e)) \<and> toasts pg' = toasts pg \<and>
         isDeleteDialogOpen pg' = isDeleteDialogOpen pg \<and> invalidated pg' = invalidated pg"
  using settle_cases [OF assms(1,2)] assms(3)
  by (elim disjE exE conjE) simp_all

text \<open>
  Claim C9. For every state of the page, \<^verbatim>\<open>handleDeleteAvatar\<close> and
  \<^verbatim>\<open>handleDeleteCover\<close> close the delete dialog and emit their notification of a
  successful removal when they are called: on return the mutation they started is still
  in flight and no mutation has resolved since. When the mutation then fails (no user, or
  the store fails) the backend is unchanged, the mutation ends with an error, and the
  notification of success is still the one emitted.
\<close>

theorem delete_handlers_notify_before_resolution:
  "isDeleteDialogOpen (handleDeleteAvatar pg) = False \<and>
   toasts (handleDeleteAvatar pg) = toasts pg @ [toast_avatar_removed] \<and>
   in_flight (handleDeleteAvatar pg) = in_flight pg @ [empty_object(Avatar_url := Null)] \<and>
   last_mutation (handleDeleteAvatar pg) = last_mutation pg \<and>
   isDeleteDialogOpen (handleDeleteCover pg) = False \<and>
   toasts (handleDeleteCover pg) = toasts pg @ [toast_cover_removed] \<and>
   in_flight (handleDeleteCover pg) = in_flight pg @ [empty_object(Cover_url := Null)] \<and>
   last_mutation (handleDeleteCover pg) = last_mutation pg \<and>
   (in_flight pg = [] \<and> (auth_user b = None \<or> store_failure b \<noteq> None) \<longrightarrow>
      fst (updateProfile_settle (b, handleDeleteAvatar pg)) = b \<and>
      (\<exists>e. last_mutation (snd (updateProfile_settle (b, handleDeleteAvatar pg))) = Some (Inl e)) \<and>
      toasts (snd (updateProfile_settle (b, handleDeleteAvatar pg)))
        = toasts pg @ [toast_avatar_removed] \<and>
      fst (updateProfile_settle (b, handleDeleteCover pg)) = b \<and>
      (\<exists>e. last_mutation (snd (updateProfile_settle (b, handleDeleteCover pg))) = Some (Inl e)) \<and>
      toasts (snd (updateProfile_settle (b, handleDeleteCover pg)))
        = toasts pg @ [toast_cover_removed])"
proof -
  have later:
    "fst (updateProfile_settle (b, handleDeleteAvatar pg)) = b \<and>
      (\<exists>e. last_mutation (snd (updateProfile_settle (b, handleDeleteAvatar pg))) = Some (Inl e)) \<and>
      toasts (snd (updateProfile_settle (b, handleDeleteAvatar pg)))
        = toasts pg @ [toast_avatar_removed] \<and>
      fst (updateProfile_settle (b, handleDeleteCover pg)) = b \<and>
      (\<exists>e. last_mutation (snd (updateProfile_settle (b, handleDeleteCover pg))) = Some (Inl e)) \<and>
      toasts (snd (updateProfile_settle (b, handleDeleteCover pg)))
        = toasts pg @ [toast_cover_removed]"
    if e: "in_flight pg = []" and f: "auth_user b = None \<or> store_failure b \<noteq> None"
  proof -
    have a: "in_flight (handleDeleteAvatar pg) = [empty_object(Avatar_url := Null)]"
      and c: "in_flight (handleDeleteCover pg) = [empty_object(Cover_url := Null)]"
      by (simp_all add: handleDeleteAvatar_fields handleDeleteCover_fields e)
    have sa: "updateProfile_settle (b, handleDeleteAvatar pg)
               = (fst (updateProfile_settle (b, handleDeleteAvatar pg)),
                  snd (updateProfile_settle (b, handleDeleteAvatar pg)))"
      and sc: "updateProfile_settle (b, handleDeleteCover pg)
               = (fst (updateProfile_settle (b, handleDeleteCover pg)),
                  snd (updateProfile_settle (b, handleDeleteCover pg)))"
      by simp_all
    from settle_fails [OF a sa f] settle_fails [OF c sc f]
    show ?thesis
      by (simp add: handleDeleteAvatar_fields handleDeleteCover_fields)
  qed
  then show ?thesis
    by (simp add: handleDeleteAvatar_fields handleDeleteCover_fields)
qed

text \<open>The store is offline: the row keeps its avatar, the page has announced its removal.\<close>

theorem delete_handlers_notify_before_resolution_witness:
  "toasts (handleDeleteAvatar Profile_initial) = [toast_avatar_removed]
   \<and> isDeleteDialogOpen (handleDeleteAvatar (Profile_initial\<lparr>isDeleteDialogOpen := True\<rparr>)) = False
   \<and> fst (updateProfile_settle
        (\<lparr>auth_user = Some \<lparr>user_id = ''u1''\<rparr>,
          profiles = [empty_object(Id_field := Str ''u1'', Avatar_url := Str ''a.png'')],
          places = [], store_failure = Some (StoreError ''offline'')\<rparr>,
         handleDeleteAvatar Profile_initial))
       = \<lparr>auth_user = Some \<lparr>user_id = ''u1''\<rparr>,
          profiles = [empty_object(Id_field := Str ''u1'', Avatar_url := Str ''a.png'')],
          places = [], store_failure = Some (StoreError ''offline'')\<rparr>
   \<and> toasts (snd (updateProfile_settle
        (\<lparr>auth_user = Some \<lparr>user_id = ''u1''\<rparr>,
          profiles = [empty_object(Id_field := Str ''u1'', Avatar_url := Str ''a.png'')],
          places = [], store_failure = Some (StoreError ''offline'')\<rparr>,
         handleDeleteAvatar Profile_initial)))
       = [toast_avatar_removed]
   \<and> toasts (snd (updateProfile_settle
        (\<lparr>auth_user = Some \<lparr>user_id = ''u1''\<rparr>,
          profiles = [empty_object(Id_field := Str ''u1'', Avatar_url := Str ''a.png'')],
          places = [], store_failure = Some (StoreError ''offline'')\<rparr>,
         handleDeleteCover Profile_initial)))
       = [toast_cover_removed]"
proof -
  let ?b = "\<lparr>auth_user = Some \<lparr>user_id = ''u1''\<rparr>,
          profiles = [empty_object(Id_field := Str ''u1'', Avatar_url := Str ''a.png'')],
          places = [], store_failure = Some (StoreError ''offline'')\<rparr>"
  have ini: "in_flight Profile_initial = []" "toasts Profile_initial = []"
    by (simp_all add: Profile_initial_def)
  have f: "auth_user ?b = None \<or> store_failure ?b \<noteq> None"
    by simp
  from delete_handlers_notify_before_resolution [of Profile_initial ?b]
       delete_handlers_notify_before_resolution [of "Profile_initial\<lparr>isDeleteDialogOpen := True\<rparr>" ?b]
       ini f
  show ?thesis by simp
qed

section \<open>Deleting a photo and rendering the page\<close>

lemma settle_refetch:
  assumes f: "in_flight pg = [values]" and st: "updateProfile_settle (b, pg) = (b', pg')"
    and u: "auth_user b = Some u" and ok: "store_failure b = None"
    and one: "filter (\<lambda>r. r Id_field = Str (user_id u)) (profiles b) = [r]"
    and idk: "values Id_field = Undefined \<or> values Id_field = Str (user_id u)"
  shows "query_data (profile_query (profile_refetch b' pg')) = Some (Some (apply_update values r))"
proof -
  from settle_cases [OF f st] u ok
  have b': "b' = b\<lparr>profiles :=
                     map (\<lambda>r. if r Id_field = Str (user_id u) then apply_update values r else r)
                       (profiles b)\<rparr>"
    and pg': "pg' = updateProfile_onSuccess (pg\<lparr>in_flight := [], last_mutation := Some (Inr True)\<rparr>)"
    by (elim disjE exE conjE; simp)+
  have inv: "[''profile''] \<in> set (invalidated pg')"
    by (simp add: pg' onSuccess_fields)
  have au: "auth_user b' = Some u" and sf: "store_failure b' = None"
    by (simp_all add: b' u ok)
  have rows: "filter (\<lambda>r. r Id_field = Str (user_id u)) (profiles b') = [apply_update values r]"
    using filter_id_update [of "values" "user_id u" "profiles b"] idk by (simp add: b' one)
  show ?thesis by (rule refetch_reads_row [OF inv au sf rows])
qed

lemma apply_update_single: "apply_update (empty_object(f := Null)) r = r(f := Null)"
  by (rule ext) (simp add: apply_update_def empty_object_def)

lemma render_avatar_falsy:
  "\<not> truthy (optional_field (query_data (profile_query pg)) Avatar_url) \<Longrightarrow>
   render_avatar pg = TextBlock ''Sem foto de perfil''"
  by (cases "optional_field (query_data (profile_query pg)) Avatar_url")
     (simp_all add: render_avatar_def)

lemma render_cover_falsy:
  "\<not> truthy (optional_field (query_data (profile_query pg)) Cover_url) \<Longrightarrow>
   render_cover pg = TextBlock ''Sem Capa de Perfil''"
  by (cases "optional_field (query_data (profile_query pg)) Cover_url")
     (simp_all add: render_cover_def)

lemma delete_avatar_end_to_end:
  assumes e: "in_flight pg = []" and u: "auth_user b = Some u" and ok: "store_failure b = None"
    and one: "filter (\<lambda>r. r Id_field = Str (user_id u)) (profiles b) = [r]"
  shows "query_data (profile_query
           (profile_refetch (fst (updateProfile_settle (b, handleDeleteAvatar pg)))
                            (snd (updateProfile_settle (b, handleDeleteAvatar pg)))))
         = Some (Some (r(Avatar_url := Null)))"
proof -
  have f: "in_flight (handleDeleteAvatar pg) = [empty_object(Avatar_url := Null)]"
    by (simp add: handleDeleteAvatar_fields e)
  have st: "updateProfile_settle (b, handleDeleteAvatar pg)
             = (fst (updateProfile_settle (b, handleDeleteAvatar pg)),
                snd (updateProfile_settle (b, handleDeleteAvatar pg)))"
    by simp
  have idk: "(empty_object(Avatar_url := Null)) Id_field = Undefined
             \<or> (empty_object(Avatar_url := Null)) Id_field = Str (user_id u)"
    by (simp add: empty_object_def)
  from settle_refetch [OF f st u ok one idk] show ?thesis
    unfolding apply_update_single .
qed

lemma delete_cover_end_to_end:
  assumes e: "in_flight pg = []" and u: "auth_user b = Some u" and ok: "store_failure b = None"
    and one: "filter (\<lambda>r. r Id_field = Str (user_id u)) (profiles b) = [r]"
  shows "query_data (profile_query
           (profile_refetch (fst (updateProfile_settle (b, handleDeleteCover pg)))
                            (snd (updateProfile_settle (b, handleDeleteCover pg)))))
         = Some (Some (r(Cover_url := Null)))"
proof -
  have f: "in_flight (handleDeleteCover pg) = [empty_object(Cover_url := Null)]"
    by (simp add: handleDeleteCover_fields e)
  have st: "updateProfile_settle (b, handleDeleteCover pg)
             = (fst (updateProfile_settle (b, handleDeleteCover pg)),
                snd (updateProfile_settle (b, handleDeleteCover pg)))"
    by simp
  have idk: "(empty_object(Cover_url := Null)) Id_field = Undefined
             \<or> (empty_object(Cover_url := Null)) Id_field = Str (user_id u)"
    by (simp add: empty_object_def)
  from settle_refetch [OF f st u ok one idk] show ?thesis
    unfolding apply_update_single .
qed

text \<open>
  Claim C2 says that a profile whose \<^verbatim>\<open>avatar_url\<close> is empty is rendered with the
  placeholder image. It is not: for a profile whose \<^verbatim>\<open>avatar_url\<close> is \<^verbatim>\<open>null\<close> the page
  renders the block of text \<^verbatim>\<open>Sem foto de perfil\<close> and no image, so what it shows is not
  \<^verbatim>\<open>/placeholder.svg\<close>; the same holds for a cover whose URL is the empty string. The
  placeholder image is only the source that \<^verbatim>\<open>onError\<close> substitutes in an image whose
  URL is not empty.
\<close>

theorem empty_avatar_shows_placeholder_image_counterexample:
  "render_avatar
     (Profile_initial
        \<lparr>profile_query := Success (Some (empty_object(Id_field := Str ''u1'', Avatar_url := Null)))\<rparr>)
     = TextBlock ''Sem foto de perfil''
   \<and> shown_image (render_avatar
     (Profile_initial
        \<lparr>profile_query := Success (Some (empty_object(Id_field := Str ''u1'', Avatar_url := Null)))\<rparr>))
     \<noteq> Some defaultAvatarImage
   \<and> shown_image (render_cover
     (Profile_initial
        \<lparr>profile_query := Success (Some (empty_object(Id_field := Str ''u1'', Cover_url := Str '''')))\<rparr>))
     \<noteq> Some defaultCoverImage"
  by (simp add: render_avatar_def render_cover_def empty_object_def)

text \<open>
  Claim C2, amended. \<^verbatim>\<open>handleDeleteAvatar\<close> starts the mutation \<^verbatim>\<open>updateProfile\<close> with
  the payload \<^verbatim>\<open>{avatar_url: null}\<close>, and \<^verbatim>\<open>handleDeleteCover\<close> with
  \<^verbatim>\<open>{cover_url: null}\<close>. For every state of the page whose profile has an empty
  \<^verbatim>\<open>avatar_url\<close> (absent, \<^verbatim>\<open>null\<close> or the empty string, or no profile at all) the avatar
  is rendered as the text \<^verbatim>\<open>Sem foto de perfil\<close> and no image, hence not the prior URL;
  likewise the cover, with the text \<^verbatim>\<open>Sem Capa de Perfil\<close>. When the mutation resolves
  for an authenticated user whose single row the store holds, the refetch reads that row
  with the field set to \<^verbatim>\<open>null\<close>, and the page renders the text.
\<close>

theorem delete_then_text_placeholder:
  "in_flight (handleDeleteAvatar pg) = in_flight pg @ [empty_object(Avatar_url := Null)] \<and>
   in_flight (handleDeleteCover pg) = in_flight pg @ [empty_object(Cover_url := Null)] \<and>
   (\<not> truthy (optional_field (query_data (profile_query pg)) Avatar_url) \<longrightarrow>
      render_avatar pg = TextBlock ''Sem foto de perfil'' \<and> shown_image (render_avatar pg) = None) \<and>
   (\<not> truthy (optional_field (query_data (profile_query pg)) Cover_url) \<longrightarrow>
      render_cover pg = TextBlock ''Sem Capa de Perfil'' \<and> shown_image (render_cover pg) = None) \<and>
   (in_flight pg = [] \<and> auth_user b = Some u \<and> store_failure b = None \<and>
    filter (\<lambda>r. r Id_field = Str (user_id u)) (profiles b) = [r] \<longrightarrow>
      query_data (profile_query
           (profile_refetch (fst (updateProfile_settle (b, handleDeleteAvatar pg)))
                            (snd (updateProfile_settle (b, handleDeleteAvatar pg)))))
         = Some (Some (r(Avatar_url := Null))) \<and>
      render_avatar
           (profile_refetch (fst (updateProfile_settle (b, handleDeleteAvatar pg)))
                            (snd (updateProfile_settle (b, handleDeleteAvatar pg))))
         = TextBlock ''Sem foto de perfil'' \<and>
      query_data (profile_query
           (profile_refetch (fst (updateProfile_settle (b, handleDeleteCover pg)))
                            (snd (updateProfile_settle (b, handleDeleteCover pg)))))
         = Some (Some (r(Cover_url := Null))) \<and>
      render_cover
           (profile_refetch (fst (updateProfile_settle (b, handleDeleteCover pg)))
                            (snd (updateProfile_settle (b, handleDeleteCover pg))))
         = TextBlock ''Sem Capa de Perfil'')"
proof (intro conjI impI)
  show "in_flight (handleDeleteAvatar pg) = in_flight pg @ [empty_object(Avatar_url := Null)]"
    by (rule handleDeleteAvatar_fields)
  show "in_flight (handleDeleteCover pg) = in_flight pg @ [empty_object(Cover_url := Null)]"
    by (rule handleDeleteCover_fields)
next
  assume n: "\<not> truthy (optional_field (query_data (profile_query pg)) Avatar_url)"
  then show "render_avatar pg = TextBlock ''Sem foto de perfil''"
    by (rule render_avatar_falsy)
  then show "shown_image (render_avatar pg) = None"
    by simp
next
  assume n: "\<not> truthy (optional_field (query_data (profile_query pg)) Cover_url)"
  then show "render_cover pg = TextBlock ''Sem Capa de Perfil''"
    by (rule render_cover_falsy)
  then show "shown_image (render_cover pg) = None"
    by simp
next
  assume h: "in_flight pg = [] \<and> auth_user b = Some u \<and> store_failure b = None \<and>
    filter (\<lambda>r. r Id_field = Str (user_id u)) (profiles b) = [r]"
  then have e: "in_flight pg = []" and u: "auth_user b = Some u" and ok: "store_failure b = None"
    and one: "filter (\<lambda>r. r Id_field = Str (user_id u)) (profiles b) = [r]"
    by simp_all
  show a: "query_data (profile_query
           (profile_refetch (fst (updateProfile_settle (b, handleDeleteAvatar pg)))
                            (snd (updateProfile_settle (b, handleDeleteAvatar pg)))))
         = Some (Some (r(Avatar_url := Null)))"
    by (rule delete_avatar_end_to_end [OF e u ok one])
  show "render_avatar
           (profile_refetch (fst (updateProfile_settle (b, handleDeleteAvatar pg)))
                            (snd (updateProfile_settle (b, handleDeleteAvatar pg))))
         = TextBlock ''Sem foto de perfil''"
    by (rule render_avatar_falsy) (simp add: a)
  show c: "query_data (profile_query
           (profile_refetch (fst (updateProfile_settle (b, handleDeleteCover pg)))
                            (snd (updateProfile_settle (b, handleDeleteCover pg)))))
         = Some (Some (r(Cover_url := Null)))"
    by (rule delete_cover_end_to_end [OF e u ok one])
  show "render_cover
           (profile_refetch (fst (updateProfile_settle (b, handleDeleteCover pg)))
                            (snd (updateProfile_settle (b, handleDeleteCover pg))))
         = TextBlock ''Sem Capa de Perfil''"
    by (rule render_cover_falsy) (simp add: c)
qed

text \<open>The avatar \<^verbatim>\<open>a.png\<close> is rendered as an image before the deletion, as text after.\<close>

theorem delete_then_text_placeholder_witness:
  "render_avatar
     (Profile_initial\<lparr>profile_query :=
        Success (Some (empty_object(Id_field := Str ''u1'', Avatar_url := Str ''a.png'')))\<rparr>)
     = Img ''a.png'' ''Avatar'' defaultAvatarImage
   \<and> render_avatar
     (Profile_initial\<lparr>profile_query :=
        Success (Some (empty_object(Id_field := Str ''u1'', Avatar_url := Null)))\<rparr>)
     = TextBlock ''Sem foto de perfil''
   \<and> render_avatar
        (profile_refetch
          (fst (updateProfile_settle
             (\<lparr>auth_user = Some \<lparr>user_id = ''u1''\<rparr>,
               profiles = [empty_object(Id_field := Str ''u1'', Avatar_url := Str ''a.png'')],
               places = [], store_failure = None\<rparr>,
              handleDeleteAvatar Profile_initial)))
          (snd (updateProfile_settle
             (\<lparr>auth_user = Some \<lparr>user_id = ''u1''\<rparr>,
               profiles = [empty_object(Id_field := Str ''u1'', Avatar_url := Str ''a.png'')],
               places = [], store_failure = None\<rparr>,
              handleDeleteAvatar Profile_initial))))
     = TextBlock ''Sem foto de perfil''"
proof -
  let ?r = "empty_object(Id_field := Str ''u1'', Avatar_url := Str ''a.png'')"
  let ?b = "\<lparr>auth_user = Some \<lparr>user_id = ''u1''\<rparr>, profiles = [?r], places = [],
            store_failure = None\<rparr>"
  let ?n = "Profile_initial\<lparr>profile_query :=
              Success (Some (empty_object(Id_field := Str ''u1'', Avatar_url := Null)))\<rparr>"
  have before: "render_avatar (Profile_initial\<lparr>profile_query := Success (Some ?r)\<rparr>)
                  = Img ''a.png'' ''Avatar'' defaultAvatarImage"
    by (simp add: render_avatar_def)
  have falsy: "\<not> truthy (optional_field (query_data (profile_query ?n)) Avatar_url)"
    by simp
  have hyp: "in_flight Profile_initial = [] \<and> auth_user ?b = Some \<lparr>user_id = ''u1''\<rparr> \<and>
             store_failure ?b = None \<and>
             filter (\<lambda>r. r Id_field = Str (user_id \<lparr>user_id = ''u1''\<rparr>)) (profiles ?b) = [?r]"
    by (simp add: Profile_initial_def)
  from delete_then_text_placeholder [of ?n] falsy
  have empty: "render_avatar ?n = TextBlock ''Sem foto de perfil''"
    by blast
  from delete_then_text_placeholder [of Profile_initial ?b "\<lparr>user_id = ''u1''\<rparr>" ?r] hyp
  have after: "render_avatar
        (profile_refetch (fst (updateProfile_settle (?b, handleDeleteAvatar Profile_initial)))
                         (snd (updateProfile_settle (?b, handleDeleteAvatar Profile_initial))))
     = TextBlock ''Sem foto de perfil''"
    by blast
  from before empty after show ?thesis by blast
qed

section \<open>Payloads of the mutations\<close>

lemma form_register_apply:
  "form_register f vals g = (if g = f \<and> vals f = Undefined then Str [] else vals g)"
  by (cases "vals f") (simp_all add: form_register_def)

lemma registered_values:
  "form_register Full_name (form_register Username vals) g =
     (if (g = Username \<or> g = Full_name) \<and> vals g = Undefined then Str [] else vals g)"
  by (auto simp: form_register_apply)

lemma preview_mode_kept:
  "isPreviewMode (input_onChange f v pg) = isPreviewMode pg"
  "isPreviewMode (useEffect_profile pg) = isPreviewMode pg"
  by (simp_all add: input_onChange_def form_setValue_def useEffect_profile_def form_reset_def
        split: option.splits)

lemma form_onSubmit_rendered:
  "\<not> isPreviewMode pg \<Longrightarrow>
   form_onSubmit pg =
     Some ((render_edit_form pg)
             \<lparr>in_flight := in_flight pg
                @ [form_register Full_name (form_register Username (form pg))]\<rparr>)"
  by (simp add: form_onSubmit_def render_edit_form_def form_getValues_def
        updateProfile_mutate_def)
lemma photo_dialog_save_in_flight:
  "in_flight (photo_dialog_save pg) =
     in_flight pg @ [empty_object(Avatar_url := form pg Avatar_url, Cover_url := form pg Cover_url)]"
  by (simp add: photo_dialog_save_def form_getValue_def mutate_fields)

lemma input_onChange_fields:
  "form (input_onChange f v pg) = (form pg)(f := Str v)"
  "in_flight (input_onChange f v pg) = in_flight pg"
  "profile_query (input_onChange f v pg) = profile_query pg"
  by (simp_all add: input_onChange_def form_setValue_def)

lemma useEffect_profile_fields:
  "in_flight (useEffect_profile pg) = in_flight pg"
  "query_data (profile_query pg) = Some (Some p) \<Longrightarrow> form (useEffect_profile pg) = p"
  by (simp_all add: useEffect_profile_def form_reset_def split: option.splits)

text \<open>
  Claim C7 says that a field the user did not change is absent from the payload. The
  profile of \<^verbatim>\<open>u1\<close> is loaded, the user types a new avatar link in the photo dialog and
  saves: the form still holds the loaded \<^verbatim>\<open>cover_url\<close>, and the payload carries it.
\<close>

theorem only_changed_fields_sent_counterexample:
  "form (input_onChange Avatar_url ''b.png''
      (profile_load
         \<lparr>auth_user = Some \<lparr>user_id = ''u1''\<rparr>,
          profiles = [empty_object(Id_field := Str ''u1'', Avatar_url := Str ''a.png'',
                                   Cover_url := Str ''c.png'')],
          places = [], store_failure = None\<rparr>
         Profile_initial)) Cover_url
     = (empty_object(Id_field := Str ''u1'', Avatar_url := Str ''a.png'',
                     Cover_url := Str ''c.png'')) Cover_url
   \<and> map (\<lambda>payload. payload Cover_url)
       (in_flight (photo_dialog_save (input_onChange Avatar_url ''b.png''
         (profile_load
           \<lparr>auth_user = Some \<lparr>user_id = ''u1''\<rparr>,
            profiles = [empty_object(Id_field := Str ''u1'', Avatar_url := Str ''a.png'',
                                     Cover_url := Str ''c.png'')],
            places = [], store_failure = None\<rparr>
           Profile_initial))))
     = [Str ''c.png'']
   \<and> map (\<lambda>payload. payload Cover_url)
       (in_flight (photo_dialog_save (input_onChange Avatar_url ''b.png''
         (profile_load
           \<lparr>auth_user = Some \<lparr>user_id = ''u1''\<rparr>,
            profiles = [empty_object(Id_field := Str ''u1'', Avatar_url := Str ''a.png'',
                                     Cover_url := Str ''c.png'')],
            places = [], store_failure = None\<rparr>
           Profile_initial))))
     \<noteq> [Undefined]"
  by (simp add: photo_dialog_save_in_flight input_onChange_fields profile_load_def
        useEffect_profile_def form_reset_def profile_queryFn_def auth_getUser_def
        from_profiles_select_eq_id_single_def Profile_initial_def empty_object_def)

text \<open>
  Claim C7, amended. Every profile mutation issued by the page is an update of a set of
  fields fixed by the control that issues it, whether or not the user changed them:
  \<^item> the edit form, which exists only outside the preview mode, sends every value the
    form holds, and the empty string for a registered input (\<^verbatim>\<open>username\<close>,
    \<^verbatim>\<open>full_name\<close>) that has no value; so after a load the payload holds every field of
    the loaded row, with the user's edit;
  \<^item> the photo dialog sends the \<^verbatim>\<open>avatar_url\<close> and the \<^verbatim>\<open>cover_url\<close> of the form, and
    every other field is absent from its payload;
  \<^item> a delete handler sends \<^verbatim>\<open>null\<close> for the field it clears, and every other field is
    absent from its payload.
\<close>

theorem mutation_payloads:
  "(isPreviewMode pg \<longrightarrow> form_onSubmit pg = None) \<and>
   (\<not> isPreviewMode pg \<longrightarrow>
      (\<exists>pg'. form_onSubmit pg = Some pg' \<and>
         map (\<lambda>payload. payload g) (in_flight pg')
           = map (\<lambda>payload. payload g) (in_flight pg)
             @ [if (g = Username \<or> g = Full_name) \<and> form pg g = Undefined then Str []
                else form pg g])) \<and>
   (\<not> isPreviewMode pg \<and> query_data (profile_query pg) = Some (Some p) \<longrightarrow>
      (\<exists>pg'. form_onSubmit (input_onChange f v (useEffect_profile pg)) = Some pg' \<and>
         map (\<lambda>payload. payload g) (in_flight pg')
           = map (\<lambda>payload. payload g) (in_flight pg)
             @ [if g = f then Str v
                else if (g = Username \<or> g = Full_name) \<and> p g = Undefined then Str []
                else p g])) \<and>
   in_flight (photo_dialog_save pg) =
     in_flight pg
       @ [empty_object(Avatar_url := form pg Avatar_url, Cover_url := form pg Cover_url)] \<and>
   (g \<noteq> Avatar_url \<and> g \<noteq> Cover_url \<longrightarrow>
      map (\<lambda>payload. payload g) (in_flight (photo_dialog_save pg))
        = map (\<lambda>payload. payload g) (in_flight pg) @ [Undefined]) \<and>
   map (\<lambda>payload. payload g) (in_flight (handleDeleteAvatar pg))
     = map (\<lambda>payload. payload g) (in_flight pg) @ [if g = Avatar_url then Null else Undefined] \<and>
   map (\<lambda>payload. payload g) (in_flight (handleDeleteCover pg))
     = map (\<lambda>payload. payload g) (in_flight pg) @ [if g = Cover_url then Null else Undefined]"
proof (intro conjI impI)
  show "form_onSubmit pg = None" if "isPreviewMode pg"
    using that by (simp add: form_onSubmit_def)
  show "\<exists>pg'. form_onSubmit pg = Some pg' \<and>
         map (\<lambda>payload. payload g) (in_flight pg')
           = map (\<lambda>payload. payload g) (in_flight pg)
             @ [if (g = Username \<or> g = Full_name) \<and> form pg g = Undefined then Str []
                else form pg g]"
    if "\<not> isPreviewMode pg"
    using that by (simp add: form_onSubmit_rendered registered_values)
  show "in_flight (photo_dialog_save pg) =
     in_flight pg
       @ [empty_object(Avatar_url := form pg Avatar_url, Cover_url := form pg Cover_url)]"
    by (rule photo_dialog_save_in_flight)
  show "map (\<lambda>payload. payload g) (in_flight (handleDeleteAvatar pg))
     = map (\<lambda>payload. payload g) (in_flight pg) @ [if g = Avatar_url then Null else Undefined]"
    by (simp add: handleDeleteAvatar_fields empty_object_def)
  show "map (\<lambda>payload. payload g) (in_flight (handleDeleteCover pg))
     = map (\<lambda>payload. payload g) (in_flight pg) @ [if g = Cover_url then Null else Undefined]"
    by (simp add: handleDeleteCover_fields empty_object_def)
next
  assume a: "\<not> isPreviewMode pg \<and> query_data (profile_query pg) = Some (Some p)"
  let ?pg = "input_onChange f v (useEffect_profile pg)"
  from a have m: "\<not> isPreviewMode ?pg"
    by (simp add: preview_mode_kept)
  from a have fm: "form ?pg = p(f := Str v)" and fl: "in_flight ?pg = in_flight pg"
    by (simp_all add: input_onChange_fields useEffect_profile_fields)
  show "\<exists>pg'. form_onSubmit ?pg = Some pg' \<and>
         map (\<lambda>payload. payload g) (in_flight pg')
           = map (\<lambda>payload. payload g) (in_flight pg)
             @ [if g = f then Str v
                else if (g = Username \<or> g = Full_name) \<and> p g = Undefined then Str []
                else p g]"
    by (simp add: form_onSubmit_rendered [OF m] registered_values fm fl)
next
  assume "g \<noteq> Avatar_url \<and> g \<noteq> Cover_url"
  then show "map (\<lambda>payload. payload g) (in_flight (photo_dialog_save pg))
        = map (\<lambda>payload. payload g) (in_flight pg) @ [Undefined]"
    by (simp add: photo_dialog_save_in_flight empty_object_def)
qed

text \<open>
  A loaded row without a \<^verbatim>\<open>full_name\<close>: renaming \<^verbatim>\<open>ana\<close> in the edit form sends the
  unchanged id, and the empty string for the full name. With no row loaded the form
  sends the empty string for both registered fields.
\<close>

theorem mutation_payloads_witness:
  "map_option
     (\<lambda>pg'. map (\<lambda>payload. (payload Id_field, payload Username, payload Full_name))
              (in_flight pg'))
     (form_onSubmit (input_onChange Username ''bia'' (useEffect_profile
        (Profile_initial\<lparr>isPreviewMode := False, profile_query :=
           Success (Some (empty_object(Id_field := Str ''u1'', Username := Str ''ana'')))\<rparr>))))
     = Some [(Str ''u1'', Str ''bia'', Str [])]
   \<and> map_option
       (\<lambda>pg'. map (\<lambda>payload. (payload Id_field, payload Username, payload Full_name))
                (in_flight pg'))
       (form_onSubmit (Profile_initial\<lparr>isPreviewMode := False\<rparr>))
     = Some [(Undefined, Str [], Str [])]
   \<and> form_onSubmit Profile_initial = None
   \<and> map (\<lambda>payload. payload Username) (in_flight (photo_dialog_save Profile_initial))
     = [Undefined]"
proof -
  let ?p = "empty_object(Id_field := Str ''u1'', Username := Str ''ana'')"
  let ?pg = "Profile_initial\<lparr>isPreviewMode := False, profile_query := Success (Some ?p)\<rparr>"
  let ?e = "Profile_initial\<lparr>isPreviewMode := False\<rparr>"
  let ?s = "form_onSubmit (input_onChange Username ''bia'' (useEffect_profile ?pg))"
  have q: "\<not> isPreviewMode ?pg \<and> query_data (profile_query ?pg) = Some (Some ?p)"
    by simp
  have e: "in_flight ?pg = []" "in_flight Profile_initial = []" "in_flight ?e = []"
    by (simp_all add: Profile_initial_def)
  have fe: "form ?e = empty_object" and ne: "\<not> isPreviewMode ?e"
    and pv: "isPreviewMode Profile_initial"
    by (simp_all add: Profile_initial_def)
  have g: "Username \<noteq> Avatar_url \<and> Username \<noteq> Cover_url"
    by simp
  have a: "map (\<lambda>payload. payload k) (in_flight (the ?s))
            = [if k = Username then Str ''bia''
               else if (k = Username \<or> k = Full_name) \<and> ?p k = Undefined then Str []
               else ?p k]" for k
  proof -
    from mutation_payloads [of ?pg k ?p Username "''bia''"] q
    obtain pg' where "?s = Some pg'"
      and "map (\<lambda>payload. payload k) (in_flight pg')
            = map (\<lambda>payload. payload k) (in_flight ?pg)
              @ [if k = Username then Str ''bia''
                 else if (k = Username \<or> k = Full_name) \<and> ?p k = Undefined then Str []
                 else ?p k]"
      by blast
    then show ?thesis by (simp only: e(1) list.map append_Nil option.sel)
  qed
  have b: "map (\<lambda>payload. payload k) (in_flight (the (form_onSubmit ?e)))
            = [if (k = Username \<or> k = Full_name) \<and> form ?e k = Undefined then Str []
               else form ?e k]" for k
  proof -
    from mutation_payloads [of ?e k ?p Username "''bia''"] ne
    obtain pg' where "form_onSubmit ?e = Some pg'"
      and "map (\<lambda>payload. payload k) (in_flight pg')
            = map (\<lambda>payload. payload k) (in_flight ?e)
              @ [if (k = Username \<or> k = Full_name) \<and> form ?e k = Undefined then Str []
                 else form ?e k]"
      by blast
    then show ?thesis by (simp only: e(3) list.map append_Nil option.sel)
  qed
  from mutation_payloads [of Profile_initial Username ?p Username "''bia''"] pv
  have c: "form_onSubmit Profile_initial = None"
    by blast
  from mutation_payloads [of Profile_initial Username ?p Username "''bia''"] g
  have "map (\<lambda>payload. payload Username) (in_flight (photo_dialog_save Profile_initial))
          = map (\<lambda>payload. payload Username) (in_flight Profile_initial) @ [Undefined]"
    by blast
  then have d: "map (\<lambda>payload. payload Username) (in_flight (photo_dialog_save Profile_initial))
             = [Undefined]"
    by (simp only: e(2) list.map append_Nil)
  from a [of Username] obtain x where x: "in_flight (the ?s) = [x]"
    by (cases "in_flight (the ?s)") auto
  from b [of Username] obtain y where y: "in_flight (the (form_onSubmit ?e)) = [y]"
    by (cases "in_flight (the (form_onSubmit ?e))") auto
  from a [of Id_field] a [of Username] a [of Full_name] x
  have a': "x Id_field = Str ''u1''" "x Username = Str ''bia''" "x Full_name = Str []"
    by (simp_all add: empty_object_def)
  from b [of Id_field] b [of Username] b [of Full_name] y
  have b': "y Id_field = Undefined" "y Username = Str []" "y Full_name = Str []"
    by (simp_all add: fe empty_object_def)
  from mutation_payloads [of ?pg Username ?p Username "''bia''"] q
  obtain sa where sa: "?s = Some sa"
    by blast
  from mutation_payloads [of ?e Username ?p Username "''bia''"] ne
  obtain sb where sb: "form_onSubmit ?e = Some sb"
    by blast
  note xa = x [unfolded sa option.sel] and yb = y [unfolded sb option.sel]
  show ?thesis
    by (simp only: sa sb option.map xa yb a' b' c d list.map)
qed

end
